theory Spec2Isabelle
  imports Main
begin

section \<open>Data model of the interview orchestration core\<close>

text \<open>
  The embedding follows \<^verbatim>\<open>backend/server.py\<close>. Documents of the MongoDB collections are
  records, a collection is the list of its documents in natural order, and a field that
  may hold \<^verbatim>\<open>None\<close> (or be absent and read through \<^verbatim>\<open>.get\<close>) is an \<open>option\<close>.
  Timestamps and slot times are the ISO strings the code stores. The audit log and the
  notification collection are written by the commands but never read by them; they are
  left out of the state.
\<close>

datatype status =
    Draft | AwaitingConfirmation | Confirmed | Scheduled | Completed
  | NoShow | Cancelled | Passed | Failed

fun status_str :: "status \<Rightarrow> string" where
  "status_str Draft = ''Draft''"
| "status_str AwaitingConfirmation = ''Awaiting Candidate Confirmation''"
| "status_str Confirmed = ''Confirmed''"
| "status_str Scheduled = ''Scheduled''"
| "status_str Completed = ''Completed''"
| "status_str NoShow = ''No Show''"
| "status_str Cancelled = ''Cancelled''"
| "status_str Passed = ''Passed''"
| "status_str Failed = ''Failed''"

text \<open>How an f-string renders the stored status (\<^verbatim>\<open>None\<close> for a null field).\<close>

definition fmt_status :: "status option \<Rightarrow> string" where
  "fmt_status s = (case s of None \<Rightarrow> ''None'' | Some st \<Rightarrow> status_str st)"

record slot =
  slot_id :: string
  start_time :: "string option"
  end_time :: "string option"
  slot_duration_minutes :: int
  is_available :: bool

record interview =
  interview_id :: string
  job_id :: string
  candidate_id :: string
  client_id :: string
  interview_mode :: "string option"
  interview_duration :: int
  time_zone :: "string option"
  proposed_slots :: "slot list"
  selected_slot_id :: "string option"
  scheduled_start_time :: "string option"
  scheduled_end_time :: "string option"
  interview_status :: "status option"
  meeting_link :: "string option"
  additional_instructions :: "string option"
  invite_sent :: bool
  invite_sent_by :: "string option"
  candidate_confirmation_timestamp :: "string option"
  no_show_flag :: bool
  no_show_count :: int
  interview_round :: int
  round_name :: string
  feedback :: "string option"
  rating :: "int option"
  created_at :: string
  updated_at :: string
  created_by :: string
  invite_sent_at :: "string option"
  duration_minutes :: "int option"
  calendar_event_id :: "string option"
  calendar_link :: "string option"
  passed_by :: "string option"
  passed_at :: "string option"
  rejected_by :: "string option"
  rejected_at :: "string option"
  hiring_initiated :: bool
  hiring_initiated_at :: "string option"
  hiring_initiated_by :: "string option"

record candidate =
  cand_candidate_id :: string
  cand_job_id :: string
  cand_name :: "string option"
  cand_email :: "string option"
  cand_portal_id :: "string option"
  cand_status :: string
  cand_current_round :: "int option"
  cand_no_show_count :: "int option"
  cand_last_interview_passed :: "string option"
  cand_rejection_reason :: "string option"
  cand_rejected_at_round :: "int option"
  cand_total_rounds_cleared :: "int option"
  cand_selected_at :: "string option"
  cand_selected_by :: "string option"
  cand_salary_offered :: "string option"
  cand_proposed_joining_date :: "string option"
  cand_offer_notes :: "string option"
  cand_updated_at :: "string option"

record job =
  job_job_id :: string
  job_client_id :: string
  job_title :: "string option"

record client =
  client_client_id :: string
  client_company_name :: "string option"

record db =
  interviews :: "interview list"
  candidates :: "candidate list"
  jobs :: "job list"
  clients :: "client list"

text \<open>The authenticated caller (\<^verbatim>\<open>current_user\<close>) and the portal candidate.\<close>

record user =
  user_email :: string
  user_role :: string
  user_client_id :: "string option"

record portal_candidate =
  pc_candidate_portal_id :: string
  pc_email :: string

text \<open>
  An \<^verbatim>\<open>HTTPException\<close> carries its status code and detail. A request body that
  fails the pydantic model is answered 422 before the handler runs; an exception the handler
  does not catch (a response model that does not validate, an attribute read on
  \<^verbatim>\<open>None\<close>) is answered 500.
\<close>

datatype error =
    HTTPException nat string
  | RequestValidationError
  | InternalServerError

section \<open>MongoDB operations\<close>

abbreviation find_one :: "('a \<Rightarrow> bool) \<Rightarrow> 'a list \<Rightarrow> 'a option" where
  "find_one \<equiv> List.find"

text \<open>\<^verbatim>\<open>update_one\<close> changes the first matching document and nothing when none matches.\<close>

fun update_one :: "('a \<Rightarrow> bool) \<Rightarrow> ('a \<Rightarrow> 'a) \<Rightarrow> 'a list \<Rightarrow> 'a list" where
  "update_one p f [] = []"
| "update_one p f (x # xs) = (if p x then f x # xs else x # update_one p f xs)"

definition has_id :: "string \<Rightarrow> interview \<Rightarrow> bool" where
  "has_id iid i = (interview_id i = iid)"

definition is_cand :: "string \<Rightarrow> candidate \<Rightarrow> bool" where
  "is_cand cid c = (cand_candidate_id c = cid)"

definition set_interview :: "string \<Rightarrow> (interview \<Rightarrow> interview) \<Rightarrow> db \<Rightarrow> db" where
  "set_interview iid f d = d\<lparr>interviews := update_one (has_id iid) f (interviews d)\<rparr>"

definition set_candidate :: "string \<Rightarrow> (candidate \<Rightarrow> candidate) \<Rightarrow> db \<Rightarrow> db" where
  "set_candidate cid f d = d\<lparr>candidates := update_one (is_cand cid) f (candidates d)\<rparr>"

section \<open>Reading an interview\<close>

text \<open>The tenant check every authenticated handler repeats.\<close>

definition access_denied :: "user \<Rightarrow> interview \<Rightarrow> bool" where
  "access_denied u i = (user_role u = ''client_user'' \<and> Some (client_id i) \<noteq> user_client_id u)"

text \<open>
  The response model \<^verbatim>\<open>InterviewResponse\<close>. It requires \<^verbatim>\<open>interview_mode\<close>,
  \<^verbatim>\<open>time_zone\<close> and \<^verbatim>\<open>interview_status\<close> to be strings.
\<close>

record interview_response =
  res_interview_id :: string
  res_job_id :: string
  res_candidate_id :: string
  res_client_id :: string
  res_candidate_name :: "string option"
  res_job_title :: "string option"
  res_company_name :: "string option"
  res_interview_mode :: string
  res_interview_duration :: int
  res_scheduled_start_time :: "string option"
  res_scheduled_end_time :: "string option"
  res_time_zone :: string
  res_interview_status :: string
  res_meeting_link :: "string option"
  res_additional_instructions :: "string option"
  res_invite_sent :: bool
  res_invite_sent_by :: "string option"
  res_candidate_confirmation_timestamp :: "string option"
  res_no_show_flag :: bool
  res_no_show_count :: int
  res_proposed_slots :: "slot list"
  res_selected_slot_id :: "string option"
  res_created_at :: string
  res_updated_at :: string
  res_created_by :: string
  res_interview_round :: int
  res_round_name :: "string option"
  res_feedback :: "string option"
  res_rating :: "int option"

text \<open>
  \<^verbatim>\<open>get_interview\<close> builds the response from the stored document and the names of the
  candidate, the job and the client when they are found. It passes neither the round nor
  the feedback, so these four fields take the defaults of the model. A null mode, time
  zone or status fails the validation of the response and the call raises.
\<close>

definition get_interview :: "user \<Rightarrow> string \<Rightarrow> db \<Rightarrow> error + interview_response" where
  "get_interview u iid d =
     (case find_one (has_id iid) (interviews d) of
        None \<Rightarrow> Inl (HTTPException 404 ''Interview not found'')
      | Some i \<Rightarrow>
          if access_denied u i then Inl (HTTPException 403 ''Access denied'')
          else (case (interview_mode i, time_zone i, interview_status i) of
            (Some mode, Some zone, Some st) \<Rightarrow>
              Inr \<lparr>res_interview_id = interview_id i,
                   res_job_id = job_id i,
                   res_candidate_id = candidate_id i,
                   res_client_id = client_id i,
                   res_candidate_name =
                     (case find_one (is_cand (candidate_id i)) (candidates d) of
                        None \<Rightarrow> None | Some c \<Rightarrow> cand_name c),
                   res_job_title =
                     (case find_one (\<lambda>j. job_job_id j = job_id i) (jobs d) of
                        None \<Rightarrow> None | Some j \<Rightarrow> job_title j),
                   res_company_name =
                     (case find_one (\<lambda>c. client_client_id c = client_id i) (clients d) of
                        None \<Rightarrow> None | Some c \<Rightarrow> client_company_name c),
                   res_interview_mode = mode,
                   res_interview_duration = interview_duration i,
                   res_scheduled_start_time = scheduled_start_time i,
                   res_scheduled_end_time = scheduled_end_time i,
                   res_time_zone = zone,
                   res_interview_status = status_str st,
                   res_meeting_link = meeting_link i,
                   res_additional_instructions = additional_instructions i,
                   res_invite_sent = invite_sent i,
                   res_invite_sent_by = invite_sent_by i,
                   res_candidate_confirmation_timestamp = candidate_confirmation_timestamp i,
                   res_no_show_flag = no_show_flag i,
                   res_no_show_count = no_show_count i,
                   res_proposed_slots = proposed_slots i,
                   res_selected_slot_id = selected_slot_id i,
                   res_created_at = created_at i,
                   res_updated_at = updated_at i,
                   res_created_by = created_by i,
                   res_interview_round = 1,
                   res_round_name = None,
                   res_feedback = None,
                   res_rating = None\<rparr>
          | _ \<Rightarrow> Inl InternalServerError))"

section \<open>Creating an interview\<close>

record slot_request =
  req_start_time :: "string option"
  req_end_time :: "string option"

record interview_create =
  ic_job_id :: string
  ic_candidate_id :: string
  ic_interview_mode :: string
  ic_interview_duration :: int
  ic_time_zone :: string
  ic_proposed_slots :: "slot_request list"
  ic_meeting_link :: "string option"
  ic_additional_instructions :: "string option"
  ic_interview_round :: int
  ic_round_name :: "string option"

text \<open>
  The random hexadecimal strings \<^verbatim>\<open>uuid.uuid4().hex\<close> yields during one call. The
  code keeps the first 12 digits for the interview id and the first 8 for a slot id.
\<close>

record uuid_source =
  interview_hex :: string
  slot_hex :: "nat \<Rightarrow> string"

text \<open>
  The constraints of the pydantic model \<^verbatim>\<open>InterviewCreate\<close> of \<^verbatim>\<open>server.py\<close>:
  the mode literal, \<^verbatim>\<open>Field(ge=15, le=240)\<close> on the duration and
  \<^verbatim>\<open>Field(ge=1, le=10)\<close> on the round. \<^verbatim>\<open>proposed_slots\<close> is a plain
  \<^verbatim>\<open>List[dict]\<close> there, with no constraint.
\<close>

definition valid_InterviewCreate :: "interview_create \<Rightarrow> bool" where
  "valid_InterviewCreate r =
     (ic_interview_mode r \<in> {''Video'', ''Phone'', ''Onsite''}
      \<and> 15 \<le> ic_interview_duration r \<and> ic_interview_duration r \<le> 240
      \<and> 1 \<le> ic_interview_round r \<and> ic_interview_round r \<le> 10)"

fun str_nat :: "nat \<Rightarrow> string" where
  "str_nat n = (if n < 10 then [char_of (48 + n)] else str_nat (n div 10) @ [char_of (48 + n mod 10)])"

declare str_nat.simps [simp del]

definition default_round_name :: "interview_create \<Rightarrow> string" where
  "default_round_name r =
     (case ic_round_name r of
        Some n \<Rightarrow> if n = [] then ''Round '' @ str_nat (nat (ic_interview_round r)) else n
      | None \<Rightarrow> ''Round '' @ str_nat (nat (ic_interview_round r)))"

definition process_slots :: "uuid_source \<Rightarrow> int \<Rightarrow> slot_request list \<Rightarrow> slot list" where
  "process_slots g dur rs =
     map (\<lambda>(i, r). \<lparr>slot_id = ''slot_'' @ take 8 (slot_hex g i),
                    start_time = req_start_time r,
                    end_time = req_end_time r,
                    slot_duration_minutes = dur,
                    is_available = True\<rparr>)
         (enumerate 0 rs)"

definition interview_doc :: "user \<Rightarrow> string \<Rightarrow> uuid_source \<Rightarrow> interview_create \<Rightarrow> job \<Rightarrow> interview" where
  "interview_doc u now g r j =
     \<lparr>interview_id = ''int_'' @ take 12 (interview_hex g),
      job_id = ic_job_id r,
      candidate_id = ic_candidate_id r,
      client_id = job_client_id j,
      interview_mode = Some (ic_interview_mode r),
      interview_duration = ic_interview_duration r,
      time_zone = Some (ic_time_zone r),
      proposed_slots = process_slots g (ic_interview_duration r) (ic_proposed_slots r),
      selected_slot_id = None,
      scheduled_start_time = None,
      scheduled_end_time = None,
      interview_status = Some AwaitingConfirmation,
      meeting_link = ic_meeting_link r,
      additional_instructions = ic_additional_instructions r,
      invite_sent = False,
      invite_sent_by = None,
      candidate_confirmation_timestamp = None,
      no_show_flag = False,
      no_show_count = 0,
      interview_round = ic_interview_round r,
      round_name = default_round_name r,
      feedback = None,
      rating = None,
      created_at = now,
      updated_at = now,
      created_by = user_email u,
      invite_sent_at = None,
      duration_minutes = None,
      calendar_event_id = None,
      calendar_link = None,
      passed_by = None,
      passed_at = None,
      rejected_by = None,
      rejected_at = None,
      hiring_initiated = False,
      hiring_initiated_at = None,
      hiring_initiated_by = None\<rparr>"

text \<open>
  The answer of \<^verbatim>\<open>create_interview\<close> repeats the fields of the new document; it is
  given here as that document.
\<close>

definition create_interview ::
  "user \<Rightarrow> string \<Rightarrow> uuid_source \<Rightarrow> interview_create \<Rightarrow> db \<Rightarrow> db \<times> (error + interview)" where
  "create_interview u now g r d =
     (if \<not> valid_InterviewCreate r then (d, Inl RequestValidationError)
      else (case find_one (\<lambda>j. job_job_id j = ic_job_id r) (jobs d) of
        None \<Rightarrow> (d, Inl (HTTPException 404 ''Job not found''))
      | Some j \<Rightarrow>
         (case find_one (is_cand (ic_candidate_id r)) (candidates d) of
            None \<Rightarrow> (d, Inl (HTTPException 404 ''Candidate not found''))
          | Some c \<Rightarrow>
              if cand_job_id c \<noteq> ic_job_id r
              then (d, Inl (HTTPException 400 ''Candidate does not belong to this job''))
              else if user_role u = ''client_user'' \<and> Some (job_client_id j) \<noteq> user_client_id u
              then (d, Inl (HTTPException 403 ''Access denied''))
              else let doc = interview_doc u now g r j
                   in (d\<lparr>interviews := interviews d @ [doc]\<rparr>, Inr doc))))"

section \<open>Updating an interview\<close>

text \<open>
  \<^verbatim>\<open>InterviewUpdate\<close> is dumped with \<^verbatim>\<open>exclude_unset=True\<close>: a field is either
  unset (\<open>None\<close>) or set, possibly to null (\<open>Some None\<close>), and every set field is written.
\<close>

record interview_update =
  iu_interview_mode :: "string option option"
  iu_meeting_link :: "string option option"
  iu_additional_instructions :: "string option option"
  iu_interview_status :: "status option option"
  iu_feedback :: "string option option"
  iu_rating :: "int option option"

definition valid_rating :: "int option \<Rightarrow> bool" where
  "valid_rating r = (case r of None \<Rightarrow> True | Some n \<Rightarrow> 1 \<le> n \<and> n \<le> 5)"

definition valid_InterviewUpdate :: "interview_update \<Rightarrow> bool" where
  "valid_InterviewUpdate r =
     ((case iu_interview_mode r of
         Some (Some m) \<Rightarrow> m \<in> {''Video'', ''Phone'', ''Onsite''}
       | _ \<Rightarrow> True)
      \<and> (case iu_rating r of Some v \<Rightarrow> valid_rating v | None \<Rightarrow> True))"

definition set_if :: "'a option \<Rightarrow> 'a \<Rightarrow> 'a" where
  "set_if v old = (case v of None \<Rightarrow> old | Some new \<Rightarrow> new)"

definition apply_update :: "interview_update \<Rightarrow> string \<Rightarrow> interview \<Rightarrow> interview" where
  "apply_update r now i =
     i\<lparr>interview_mode := set_if (iu_interview_mode r) (interview_mode i),
       meeting_link := set_if (iu_meeting_link r) (meeting_link i),
       additional_instructions := set_if (iu_additional_instructions r) (additional_instructions i),
       interview_status := set_if (iu_interview_status r) (interview_status i),
       feedback := set_if (iu_feedback r) (feedback i),
       rating := set_if (iu_rating r) (rating i),
       updated_at := now\<rparr>"

definition update_interview ::
  "user \<Rightarrow> string \<Rightarrow> string \<Rightarrow> interview_update \<Rightarrow> db \<Rightarrow> db \<times> (error + interview_response)" where
  "update_interview u now iid r d =
     (if \<not> valid_InterviewUpdate r then (d, Inl RequestValidationError)
      else (case find_one (has_id iid) (interviews d) of
        None \<Rightarrow> (d, Inl (HTTPException 404 ''Interview not found''))
      | Some i \<Rightarrow>
          if access_denied u i then (d, Inl (HTTPException 403 ''Access denied''))
          else let d' = set_interview iid (apply_update r now) d
               in (d', get_interview u iid d')))"

section \<open>Booking a slot\<close>

record slot_selection =
  sel_slot_id :: string
  sel_confirmed :: bool

text \<open>The loop that rebuilds the slot list, flagging every slot with the chosen id.\<close>

definition mark_unavailable :: "string \<Rightarrow> slot list \<Rightarrow> slot list" where
  "mark_unavailable sid ss = map (\<lambda>s. if slot_id s = sid then s\<lparr>is_available := False\<rparr> else s) ss"

definition not_awaiting :: "interview \<Rightarrow> error" where
  "not_awaiting i =
     HTTPException 400
       (''Interview is not awaiting confirmation (current status: ''
          @ fmt_status (interview_status i) @ '')'')"

text \<open>
  The write of the three booking handlers: \<^verbatim>\<open>$set\<close> of the selection, the scheduled
  times, the status, the confirmation timestamp and the slot list rebuilt from the
  document that was read.
\<close>

definition claim :: "string \<Rightarrow> interview \<Rightarrow> slot \<Rightarrow> bool \<Rightarrow> string \<Rightarrow> interview \<Rightarrow> interview" where
  "claim sid read sel conf now i =
     i\<lparr>selected_slot_id := Some sid,
       scheduled_start_time := start_time sel,
       scheduled_end_time := end_time sel,
       interview_status := Some (if conf then Confirmed else AwaitingConfirmation),
       candidate_confirmation_timestamp := (if conf then Some now else None),
       updated_at := now,
       proposed_slots := mark_unavailable sid (proposed_slots read)\<rparr>"

text \<open>
  \<^verbatim>\<open>book_interview_slot\<close> has no tenant check of its own; the one of
  \<^verbatim>\<open>get_interview\<close>, called for the response, runs after the write.
\<close>

definition book_interview_slot ::
  "user \<Rightarrow> string \<Rightarrow> string \<Rightarrow> slot_selection \<Rightarrow> db \<Rightarrow> db \<times> (error + interview_response)" where
  "book_interview_slot u now iid sel d =
     (case find_one (has_id iid) (interviews d) of
        None \<Rightarrow> (d, Inl (HTTPException 404 ''Interview not found''))
      | Some i \<Rightarrow>
          if interview_status i \<noteq> Some AwaitingConfirmation then (d, Inl (not_awaiting i))
          else (case find_one (\<lambda>s. slot_id s = sel_slot_id sel) (proposed_slots i) of
            None \<Rightarrow> (d, Inl (HTTPException 404 ''Slot not found''))
          | Some selected_slot \<Rightarrow>
              if \<not> is_available selected_slot
              then (d, Inl (HTTPException 400 ''Slot is no longer available''))
              else let d' = set_interview iid
                              (claim (sel_slot_id sel) i selected_slot (sel_confirmed sel) now) d
                   in (d', get_interview u iid d')))"

text \<open>
  \<^verbatim>\<open>public_book_slot\<close>: \<open>tok\<close> is \<^verbatim>\<open>generate_booking_token\<close>, a SHA-256 digest
  of the interview id and a secret, taken as a parameter.
\<close>

definition public_book_slot ::
  "(string \<Rightarrow> string) \<Rightarrow> string \<Rightarrow> string \<Rightarrow> string \<Rightarrow> string \<Rightarrow> db \<Rightarrow> db \<times> (error + unit)" where
  "public_book_slot tok now iid sid token d =
     (if token \<noteq> tok iid then (d, Inl (HTTPException 403 ''Invalid or expired booking link''))
      else (case find_one (has_id iid) (interviews d) of
        None \<Rightarrow> (d, Inl (HTTPException 404 ''Interview not found''))
      | Some i \<Rightarrow>
          if interview_status i \<noteq> Some AwaitingConfirmation then (d, Inl (not_awaiting i))
          else (case find_one (\<lambda>s. slot_id s = sid) (proposed_slots i) of
            None \<Rightarrow> (d, Inl (HTTPException 404 ''Slot not found''))
          | Some selected_slot \<Rightarrow>
              if \<not> is_available selected_slot
              then (d, Inl (HTTPException 400 ''Slot is no longer available''))
              else (set_interview iid (claim sid i selected_slot True now) d, Inr ()))))"

text \<open>
  \<^verbatim>\<open>candidate_portal_book_slot\<close>: the interview must belong to one of the first 100
  candidate records linked to the portal user by portal id or email.
\<close>

definition portal_candidate_ids :: "portal_candidate \<Rightarrow> db \<Rightarrow> string list" where
  "portal_candidate_ids pc d =
     map cand_candidate_id
       (take 100 (filter (\<lambda>c. cand_portal_id c = Some (pc_candidate_portal_id pc)
                               \<or> cand_email c = Some (pc_email pc)) (candidates d)))"

definition candidate_portal_book_slot ::
  "portal_candidate \<Rightarrow> string \<Rightarrow> string \<Rightarrow> string \<Rightarrow> db \<Rightarrow> db \<times> (error + unit)" where
  "candidate_portal_book_slot pc now iid sid d =
     (case find_one (has_id iid) (interviews d) of
        None \<Rightarrow> (d, Inl (HTTPException 404 ''Interview not found''))
      | Some i \<Rightarrow>
          if candidate_id i \<notin> set (portal_candidate_ids pc d)
          then (d, Inl (HTTPException 403 ''This interview does not belong to you''))
          else if interview_status i \<noteq> Some AwaitingConfirmation then (d, Inl (not_awaiting i))
          else (case find_one (\<lambda>s. slot_id s = sid) (proposed_slots i) of
            None \<Rightarrow> (d, Inl (HTTPException 404 ''Slot not found''))
          | Some selected_slot \<Rightarrow>
              if \<not> is_available selected_slot
              then (d, Inl (HTTPException 400 ''Slot is no longer available''))
              else (set_interview iid (claim sid i selected_slot True now) d, Inr ())))"

section \<open>Sending the invitation\<close>

record invite_request =
  ir_meeting_link :: "string option"
  ir_interview_mode :: "string option"
  ir_duration_minutes :: "int option"
  ir_time_zone :: "string option"
  ir_auto_create_calendar_event :: "bool option"

text \<open>
  What the calendar service and the mail provider answer is outside the program:
  \<open>ext_calendar\<close> is the outcome of the HTTP call of
  \<^verbatim>\<open>create_google_calendar_event\<close> (credentials, parsing of the date and the
  request), \<open>ext_email_sent\<close> the success flag of \<^verbatim>\<open>send_email\<close>. Both
  functions catch every exception and return a dictionary.
\<close>

datatype calendar_result =
    CalendarFailed
  | CalendarCreated string string string

record external =
  ext_calendar :: calendar_result
  ext_email_sent :: bool

record invite_response =
  resp_email_sent :: bool
  resp_meeting_link :: "string option"
  resp_calendar_event_created :: bool

text \<open>
  \<^verbatim>\<open>scheduled_at.replace\<close> raises inside the \<^verbatim>\<open>try\<close> when the interview has no
  scheduled start, so the call then reports failure.
\<close>

definition create_google_calendar_event :: "external \<Rightarrow> string option \<Rightarrow> calendar_result" where
  "create_google_calendar_event ext scheduled_at =
     (case scheduled_at of None \<Rightarrow> CalendarFailed | Some t \<Rightarrow> ext_calendar ext)"

text \<open>
  The only statement of \<^verbatim>\<open>get_interview_invitation_email_template\<close> that can raise is
  \<^verbatim>\<open>candidate.get('name', 'Candidate').split()[0]\<close>: on a null name and on a name
  without a non-blank character. A character is a code point below 256 here; the blanks
  of \<^verbatim>\<open>str.split\<close> in that range are the ASCII ones, U+0085 and U+00A0. The name key
  is present in every stored candidate, so \<open>None\<close> is a null name.
\<close>

definition py_isspace :: "char \<Rightarrow> bool" where
  "py_isspace c = ((of_char c :: nat) \<in> {9, 10, 11, 12, 13, 28, 29, 30, 31, 32, 133, 160})"

definition template_raises :: "candidate \<Rightarrow> bool" where
  "template_raises c = (case cand_name c of None \<Rightarrow> True | Some n \<Rightarrow> list_all py_isspace n)"

definition wants_calendar :: "invite_request option \<Rightarrow> bool" where
  "wants_calendar request =
     (case request of None \<Rightarrow> False | Some r \<Rightarrow> ir_auto_create_calendar_event r = Some True)"

definition invite_link :: "invite_request option \<Rightarrow> calendar_result option \<Rightarrow> string option" where
  "invite_link request cal =
     (case cal of
        Some (CalendarCreated eid link cl) \<Rightarrow> Some link
      | _ \<Rightarrow> (case request of None \<Rightarrow> Some [] | Some r \<Rightarrow> ir_meeting_link r))"

definition invite_mode :: "invite_request option \<Rightarrow> string option" where
  "invite_mode request = (case request of None \<Rightarrow> Some ''Video'' | Some r \<Rightarrow> ir_interview_mode r)"

definition invite_duration :: "invite_request option \<Rightarrow> int option" where
  "invite_duration request = (case request of None \<Rightarrow> Some 30 | Some r \<Rightarrow> ir_duration_minutes r)"

definition invite_time_zone :: "invite_request option \<Rightarrow> string option" where
  "invite_time_zone request =
     (case request of None \<Rightarrow> Some ''IST (Indian Standard Time)'' | Some r \<Rightarrow> ir_time_zone r)"

definition invite_write ::
  "user \<Rightarrow> string \<Rightarrow> invite_request option \<Rightarrow> calendar_result option \<Rightarrow> interview \<Rightarrow> interview \<Rightarrow> interview" where
  "invite_write u now request cal read i =
     (let i' = i\<lparr>invite_sent := True,
                  invite_sent_by := Some (user_email u),
                  invite_sent_at := Some now,
                  interview_status := (if interview_status read = Some Confirmed then Some Scheduled
                                       else interview_status read),
                  meeting_link := invite_link request cal,
                  interview_mode := invite_mode request,
                  duration_minutes := invite_duration request,
                  time_zone := invite_time_zone request,
                  updated_at := now\<rparr>
      in (case cal of
            Some (CalendarCreated eid link cl) \<Rightarrow> i'\<lparr>calendar_event_id := Some eid, calendar_link := Some cl\<rparr>
          | _ \<Rightarrow> i'))"

definition send_interview_invite ::
  "user \<Rightarrow> string \<Rightarrow> external \<Rightarrow> string \<Rightarrow> invite_request option \<Rightarrow> db \<Rightarrow> db \<times> (error + invite_response)" where
  "send_interview_invite u now ext iid request d =
     (case find_one (has_id iid) (interviews d) of
        None \<Rightarrow> (d, Inl (HTTPException 404 ''Interview not found''))
      | Some i \<Rightarrow>
          if access_denied u i then (d, Inl (HTTPException 403 ''Access denied''))
          else (case find_one (is_cand (candidate_id i)) (candidates d) of
            None \<Rightarrow> (d, Inl (HTTPException 404 ''Candidate not found''))
          | Some c \<Rightarrow>
              if cand_email c = None \<or> cand_email c = Some []
              then (d, Inl (HTTPException 400 ''Candidate does not have an email address''))
              else if find_one (\<lambda>j. job_job_id j = job_id i) (jobs d) = None
                      \<or> find_one (\<lambda>c. client_client_id c = client_id i) (clients d) = None
              then (d, Inl (HTTPException 404 ''Job or client not found''))
              else let cal = (if wants_calendar request
                              then Some (create_google_calendar_event ext (scheduled_start_time i))
                              else None)
                   in if template_raises c then (d, Inl InternalServerError)
                      else (set_interview iid (invite_write u now request cal i) d,
                            Inr \<lparr>resp_email_sent = ext_email_sent ext,
                                 resp_meeting_link = invite_link request cal,
                                 resp_calendar_event_created =
                                   (case cal of Some (CalendarCreated eid link cl) \<Rightarrow> True | _ \<Rightarrow> False)\<rparr>)))"

section \<open>Completion, no-show and cancellation\<close>

text \<open>The \<^verbatim>\<open>$set\<close> documents of the three handlers, as functions on the stored record.\<close>

definition complete_write :: "string \<Rightarrow> interview \<Rightarrow> interview" where
  "complete_write now i = i\<lparr>interview_status := Some Completed, updated_at := now\<rparr>"

definition no_show_write :: "string \<Rightarrow> int \<Rightarrow> interview \<Rightarrow> interview" where
  "no_show_write now n i =
     i\<lparr>interview_status := Some NoShow, no_show_flag := True, no_show_count := n, updated_at := now\<rparr>"

text \<open>\<^verbatim>\<open>$inc\<close> creates the field with the increment when the candidate has none.\<close>

definition no_show_inc :: "candidate \<Rightarrow> candidate" where
  "no_show_inc c =
     c\<lparr>cand_no_show_count := Some (case cand_no_show_count c of None \<Rightarrow> 1 | Some n \<Rightarrow> n + 1)\<rparr>"

definition cancel_write :: "string \<Rightarrow> interview \<Rightarrow> interview" where
  "cancel_write now i = i\<lparr>interview_status := Some Cancelled, updated_at := now\<rparr>"

definition mark_interview_completed :: "user \<Rightarrow> string \<Rightarrow> string \<Rightarrow> db \<Rightarrow> db \<times> (error + unit)" where
  "mark_interview_completed u now iid d =
     (case find_one (has_id iid) (interviews d) of
        None \<Rightarrow> (d, Inl (HTTPException 404 ''Interview not found''))
      | Some i \<Rightarrow>
          if access_denied u i then (d, Inl (HTTPException 403 ''Access denied''))
          else (set_interview iid (complete_write now) d, Inr ()))"

text \<open>The response carries the new count of the interview.\<close>

definition mark_interview_no_show :: "user \<Rightarrow> string \<Rightarrow> string \<Rightarrow> db \<Rightarrow> db \<times> (error + int)" where
  "mark_interview_no_show u now iid d =
     (case find_one (has_id iid) (interviews d) of
        None \<Rightarrow> (d, Inl (HTTPException 404 ''Interview not found''))
      | Some i \<Rightarrow>
          if access_denied u i then (d, Inl (HTTPException 403 ''Access denied''))
          else let current_no_show_count = no_show_count i + 1;
                   d1 = set_interview iid (no_show_write now current_no_show_count) d;
                   d2 = set_candidate (candidate_id i) no_show_inc d1
               in (d2, Inr current_no_show_count))"

definition cancel_interview :: "user \<Rightarrow> string \<Rightarrow> string \<Rightarrow> db \<Rightarrow> db \<times> (error + unit)" where
  "cancel_interview u now iid d =
     (case find_one (has_id iid) (interviews d) of
        None \<Rightarrow> (d, Inl (HTTPException 404 ''Interview not found''))
      | Some i \<Rightarrow>
          if access_denied u i then (d, Inl (HTTPException 403 ''Access denied''))
          else (set_interview iid (cancel_write now) d, Inr ()))"

section \<open>Multi-round flow\<close>

record round_request =
  rr_feedback :: "string option"
  rr_rating :: "int option"
  rr_next_round_name :: "string option"

record hiring_request =
  hr_feedback :: "string option"
  hr_rating :: "int option"
  hr_salary_offered :: "string option"
  hr_joining_date :: "string option"
  hr_offer_notes :: "string option"

definition not_completed :: "interview \<Rightarrow> error" where
  "not_completed i =
     HTTPException 400
       (''Interview must be Completed or Scheduled before moving to next round. Current status: ''
          @ fmt_status (interview_status i))"

text \<open>The writes of the three handlers to the interview and to the candidate.\<close>

definition pass_write :: "user \<Rightarrow> string \<Rightarrow> round_request \<Rightarrow> interview \<Rightarrow> interview" where
  "pass_write u now request i =
     i\<lparr>interview_status := Some Passed,
       feedback := rr_feedback request,
       rating := rr_rating request,
       updated_at := now,
       passed_by := Some (user_email u),
       passed_at := Some now\<rparr>"

definition pass_candidate :: "string \<Rightarrow> int \<Rightarrow> string \<Rightarrow> candidate \<Rightarrow> candidate" where
  "pass_candidate now current_round iid c =
     c\<lparr>cand_status := ''IN_PROGRESS'',
       cand_current_round := Some (current_round + 1),
       cand_last_interview_passed := Some iid,
       cand_updated_at := Some now\<rparr>"

definition fail_write :: "user \<Rightarrow> string \<Rightarrow> round_request \<Rightarrow> interview \<Rightarrow> interview" where
  "fail_write u now request i =
     i\<lparr>interview_status := Some Failed,
       feedback := rr_feedback request,
       rating := rr_rating request,
       updated_at := now,
       rejected_by := Some (user_email u),
       rejected_at := Some now\<rparr>"

definition fail_candidate :: "string \<Rightarrow> round_request \<Rightarrow> int \<Rightarrow> candidate \<Rightarrow> candidate" where
  "fail_candidate now request round c =
     c\<lparr>cand_status := ''REJECTED'',
       cand_rejection_reason := rr_feedback request,
       cand_rejected_at_round := Some round,
       cand_updated_at := Some now\<rparr>"

definition hire_write :: "user \<Rightarrow> string \<Rightarrow> hiring_request \<Rightarrow> interview \<Rightarrow> interview" where
  "hire_write u now request i =
     i\<lparr>interview_status := Some Passed,
       feedback := hr_feedback request,
       rating := hr_rating request,
       hiring_initiated := True,
       hiring_initiated_at := Some now,
       hiring_initiated_by := Some (user_email u),
       updated_at := now\<rparr>"

definition hire_candidate :: "user \<Rightarrow> string \<Rightarrow> hiring_request \<Rightarrow> int \<Rightarrow> candidate \<Rightarrow> candidate" where
  "hire_candidate u now request current_round c =
     c\<lparr>cand_status := ''SELECTED'',
       cand_selected_at := Some now,
       cand_selected_by := Some (user_email u),
       cand_salary_offered := hr_salary_offered request,
       cand_proposed_joining_date := hr_joining_date request,
       cand_offer_notes := hr_offer_notes request,
       cand_total_rounds_cleared := Some current_round,
       cand_updated_at := Some now\<rparr>"

text \<open>
  \<^verbatim>\<open>move_to_next_round\<close> answers the pair (current round, next round). The candidate
  is read back for the notification after both writes; \<^verbatim>\<open>candidate.get\<close> raises when
  the record is gone.
\<close>

definition move_to_next_round ::
  "user \<Rightarrow> string \<Rightarrow> string \<Rightarrow> round_request \<Rightarrow> db \<Rightarrow> db \<times> (error + int \<times> int)" where
  "move_to_next_round u now iid request d =
     (if \<not> valid_rating (rr_rating request) then (d, Inl RequestValidationError)
      else (case find_one (has_id iid) (interviews d) of
        None \<Rightarrow> (d, Inl (HTTPException 404 ''Interview not found''))
      | Some i \<Rightarrow>
          if access_denied u i then (d, Inl (HTTPException 403 ''Access denied''))
          else if interview_status i \<notin> {Some Completed, Some Scheduled} then (d, Inl (not_completed i))
          else let current_round = interview_round i;
                   d1 = set_interview iid (pass_write u now request) d;
                   d2 = set_candidate (candidate_id i) (pass_candidate now current_round iid) d1
               in (case find_one (is_cand (candidate_id i)) (candidates d2) of
                     None \<Rightarrow> (d2, Inl InternalServerError)
                   | Some c \<Rightarrow> (d2, Inr (current_round, current_round + 1)))))"

definition reject_after_interview ::
  "user \<Rightarrow> string \<Rightarrow> string \<Rightarrow> round_request \<Rightarrow> db \<Rightarrow> db \<times> (error + unit)" where
  "reject_after_interview u now iid request d =
     (if \<not> valid_rating (rr_rating request) then (d, Inl RequestValidationError)
      else (case find_one (has_id iid) (interviews d) of
        None \<Rightarrow> (d, Inl (HTTPException 404 ''Interview not found''))
      | Some i \<Rightarrow>
          if access_denied u i then (d, Inl (HTTPException 403 ''Access denied''))
          else let d1 = set_interview iid (fail_write u now request) d;
                   d2 = set_candidate (candidate_id i)
                          (fail_candidate now request (interview_round i)) d1
               in (d2, Inr ())))"

text \<open>
  \<^verbatim>\<open>initiate_hiring\<close> answers the number of rounds cleared. The notification built
  after the writes reads the candidate and the job; either being gone raises.
\<close>

definition initiate_hiring ::
  "user \<Rightarrow> string \<Rightarrow> string \<Rightarrow> hiring_request \<Rightarrow> db \<Rightarrow> db \<times> (error + int)" where
  "initiate_hiring u now iid request d =
     (if \<not> valid_rating (hr_rating request) then (d, Inl RequestValidationError)
      else (case find_one (has_id iid) (interviews d) of
        None \<Rightarrow> (d, Inl (HTTPException 404 ''Interview not found''))
      | Some i \<Rightarrow>
          if access_denied u i then (d, Inl (HTTPException 403 ''Access denied''))
          else let current_round = interview_round i;
                   d1 = set_interview iid (hire_write u now request) d;
                   candidate = find_one (is_cand (candidate_id i)) (candidates d1);
                   d2 = set_candidate (candidate_id i) (hire_candidate u now request current_round) d1
               in if candidate = None \<or> find_one (\<lambda>j. job_job_id j = job_id i) (jobs d2) = None
                  then (d2, Inl InternalServerError)
                  else (d2, Inr current_round)))"

section \<open>Pipeline statistics\<close>

record pipeline_stats =
  total_interviews :: int
  awaiting_confirmation :: int
  confirmed :: int
  scheduled :: int
  completed :: int
  no_shows :: int
  cancelled :: int

datatype stat_key =
    Key_awaiting_confirmation | Key_confirmed | Key_scheduled
  | Key_completed | Key_no_shows | Key_cancelled

text \<open>\<^verbatim>\<open>status_mapping.get\<close>: the six dashboard statuses have a key, anything else has none.\<close>

fun status_mapping :: "status option \<Rightarrow> stat_key option" where
  "status_mapping (Some AwaitingConfirmation) = Some Key_awaiting_confirmation"
| "status_mapping (Some Confirmed) = Some Key_confirmed"
| "status_mapping (Some Scheduled) = Some Key_scheduled"
| "status_mapping (Some Completed) = Some Key_completed"
| "status_mapping (Some NoShow) = Some Key_no_shows"
| "status_mapping (Some Cancelled) = Some Key_cancelled"
| "status_mapping _ = None"

fun set_stat :: "stat_key \<Rightarrow> int \<Rightarrow> pipeline_stats \<Rightarrow> pipeline_stats" where
  "set_stat Key_awaiting_confirmation n st = st\<lparr>awaiting_confirmation := n\<rparr>"
| "set_stat Key_confirmed n st = st\<lparr>confirmed := n\<rparr>"
| "set_stat Key_scheduled n st = st\<lparr>scheduled := n\<rparr>"
| "set_stat Key_completed n st = st\<lparr>completed := n\<rparr>"
| "set_stat Key_no_shows n st = st\<lparr>no_shows := n\<rparr>"
| "set_stat Key_cancelled n st = st\<lparr>cancelled := n\<rparr>"

text \<open>
  The \<^verbatim>\<open>$group\<close> stage: one entry per distinct status with the number of documents
  that carry it.
\<close>

fun add_count :: "'k \<Rightarrow> ('k \<times> int) list \<Rightarrow> ('k \<times> int) list" where
  "add_count k [] = [(k, 1)]"
| "add_count k ((k', n) # g) = (if k = k' then (k', n + 1) # g else (k', n) # add_count k g)"

definition group_count :: "'k list \<Rightarrow> ('k \<times> int) list" where
  "group_count ks = fold add_count ks []"

definition stats_query :: "user \<Rightarrow> string option \<Rightarrow> interview \<Rightarrow> bool" where
  "stats_query u cid i =
     (if user_role u = ''client_user'' then Some (client_id i) = user_client_id u
      else case cid of
             None \<Rightarrow> True
           | Some c \<Rightarrow> if c = [] then True else client_id i = c)"

definition tally :: "status option \<times> int \<Rightarrow> pipeline_stats \<Rightarrow> pipeline_stats" where
  "tally item st =
     (let st' = (case status_mapping (fst item) of
                   None \<Rightarrow> st
                 | Some key \<Rightarrow> set_stat key (snd item) st)
      in st'\<lparr>total_interviews := total_interviews st' + snd item\<rparr>)"

definition empty_stats :: pipeline_stats where
  "empty_stats =
     \<lparr>total_interviews = 0, awaiting_confirmation = 0, confirmed = 0, scheduled = 0,
      completed = 0, no_shows = 0, cancelled = 0\<rparr>"

definition status_counts :: "user \<Rightarrow> string option \<Rightarrow> db \<Rightarrow> (status option \<times> int) list" where
  "status_counts u cid d =
     take 100 (group_count (map interview_status (filter (stats_query u cid) (interviews d))))"

definition get_interview_pipeline_stats :: "user \<Rightarrow> string option \<Rightarrow> db \<Rightarrow> pipeline_stats" where
  "get_interview_pipeline_stats u cid d = fold tally (status_counts u cid d) empty_stats"

section \<open>Commands and runs\<close>

datatype command =
    Create user string uuid_source interview_create
  | Update user string string interview_update
  | Book user string string slot_selection
  | PortalBook portal_candidate string string string
  | PublicBook string string string string
  | SendInvite user string external string "invite_request option"
  | MarkCompleted user string string
  | MarkNoShow user string string
  | Cancel user string string
  | MoveToNextRound user string string round_request
  | Reject user string string round_request
  | InitiateHiring user string string hiring_request

text \<open>The state a command leaves behind, whether it answered or raised.\<close>

fun step :: "(string \<Rightarrow> string) \<Rightarrow> command \<Rightarrow> db \<Rightarrow> db" where
  "step tok (Create u now g r) d = fst (create_interview u now g r d)"
| "step tok (Update u now iid r) d = fst (update_interview u now iid r d)"
| "step tok (Book u now iid sel) d = fst (book_interview_slot u now iid sel d)"
| "step tok (PortalBook pc now iid sid) d = fst (candidate_portal_book_slot pc now iid sid d)"
| "step tok (PublicBook now iid sid token) d = fst (public_book_slot tok now iid sid token d)"
| "step tok (SendInvite u now ext iid request) d = fst (send_interview_invite u now ext iid request d)"
| "step tok (MarkCompleted u now iid) d = fst (mark_interview_completed u now iid d)"
| "step tok (MarkNoShow u now iid) d = fst (mark_interview_no_show u now iid d)"
| "step tok (Cancel u now iid) d = fst (cancel_interview u now iid d)"
| "step tok (MoveToNextRound u now iid r) d = fst (move_to_next_round u now iid r d)"
| "step tok (Reject u now iid r) d = fst (reject_after_interview u now iid r d)"
| "step tok (InitiateHiring u now iid r) d = fst (initiate_hiring u now iid r d)"

definition run :: "(string \<Rightarrow> string) \<Rightarrow> command list \<Rightarrow> db \<Rightarrow> db" where
  "run tok cs d = fold (step tok) cs d"

text \<open>The interview a command addresses (none for creation).\<close>

fun target :: "command \<Rightarrow> string option" where
  "target (Create u now g r) = None"
| "target (Update u now iid r) = Some iid"
| "target (Book u now iid sel) = Some iid"
| "target (PortalBook pc now iid sid) = Some iid"
| "target (PublicBook now iid sid token) = Some iid"
| "target (SendInvite u now ext iid request) = Some iid"
| "target (MarkCompleted u now iid) = Some iid"
| "target (MarkNoShow u now iid) = Some iid"
| "target (Cancel u now iid) = Some iid"
| "target (MoveToNextRound u now iid r) = Some iid"
| "target (Reject u now iid r) = Some iid"
| "target (InitiateHiring u now iid r) = Some iid"

section \<open>Properties under study\<close>

subsection \<open>What a command writes\<close>

text \<open>
  The record a command stores in place of the interview \<open>i\<close> it has read, once its
  checks have passed, and the check it makes on the content of \<open>i\<close> before writing.
\<close>

definition chosen :: "string \<Rightarrow> interview \<Rightarrow> slot option" where
  "chosen sid i = find_one (\<lambda>s. slot_id s = sid) (proposed_slots i)"

definition bookable :: "string \<Rightarrow> interview \<Rightarrow> bool" where
  "bookable sid i =
     (interview_status i = Some AwaitingConfirmation
      \<and> (case chosen sid i of None \<Rightarrow> False | Some s \<Rightarrow> is_available s))"

definition booked :: "string \<Rightarrow> bool \<Rightarrow> string \<Rightarrow> interview \<Rightarrow> interview" where
  "booked sid conf now i =
     (case chosen sid i of None \<Rightarrow> i | Some s \<Rightarrow> claim sid i s conf now i)"

fun written :: "command \<Rightarrow> interview \<Rightarrow> interview" where
  "written (Create u now g r) i = i"
| "written (Update u now iid r) i = apply_update r now i"
| "written (Book u now iid sel) i = booked (sel_slot_id sel) (sel_confirmed sel) now i"
| "written (PortalBook pc now iid sid) i = booked sid True now i"
| "written (PublicBook now iid sid token) i = booked sid True now i"
| "written (SendInvite u now ext iid request) i =
     invite_write u now request
       (if wants_calendar request
        then Some (create_google_calendar_event ext (scheduled_start_time i)) else None) i i"
| "written (MarkCompleted u now iid) i = complete_write now i"
| "written (MarkNoShow u now iid) i = no_show_write now (no_show_count i + 1) i"
| "written (Cancel u now iid) i = cancel_write now i"
| "written (MoveToNextRound u now iid r) i = pass_write u now r i"
| "written (Reject u now iid r) i = fail_write u now r i"
| "written (InitiateHiring u now iid r) i = hire_write u now r i"

fun checked :: "command \<Rightarrow> interview \<Rightarrow> bool" where
  "checked (Book u now iid sel) i = bookable (sel_slot_id sel) i"
| "checked (PortalBook pc now iid sid) i = bookable sid i"
| "checked (PublicBook now iid sid token) i = bookable sid i"
| "checked (MoveToNextRound u now iid r) i = (interview_status i \<in> {Some Completed, Some Scheduled})"
| "checked _ i = True"

text \<open>\<open>replaced xs xs' i i'\<close>: the collection \<open>xs'\<close> is \<open>xs\<close> with \<open>i'\<close> in the place of \<open>i\<close>.\<close>

definition replaced :: "interview list \<Rightarrow> interview list \<Rightarrow> interview \<Rightarrow> interview \<Rightarrow> bool" where
  "replaced xs xs' i i' = (\<exists>ys zs. xs = ys @ i # zs \<and> xs' = ys @ i' # zs)"

subsection \<open>Claimed slots\<close>

definition claimed_slots :: "interview \<Rightarrow> slot list" where
  "claimed_slots i = filter (\<lambda>s. \<not> is_available s) (proposed_slots i)"

text \<open>
  At most one slot is claimed, and a claimed slot is the selected one and gives the
  scheduled start.
\<close>

definition one_claim :: "interview \<Rightarrow> bool" where
  "one_claim i =
     (length (claimed_slots i) \<le> 1
      \<and> list_all (\<lambda>s. selected_slot_id i = Some (slot_id s)
                       \<and> scheduled_start_time i = start_time s) (claimed_slots i))"

definition booking_inv :: "interview \<Rightarrow> bool" where
  "booking_inv i =
     (distinct (map slot_id (proposed_slots i))
      \<and> (interview_status i = Some AwaitingConfirmation \<longrightarrow> claimed_slots i = [])
      \<and> one_claim i)"

text \<open>
  Commands that claim for good: a booking that confirms, an update that does not put the
  interview back to awaiting confirmation, a creation whose generated slot ids differ.
\<close>

fun confirming :: "command \<Rightarrow> bool" where
  "confirming (Create u now g r) =
     distinct (map (\<lambda>n. take 8 (slot_hex g n)) [0..<length (ic_proposed_slots r)])"
| "confirming (Update u now iid r) = (iu_interview_status r \<noteq> Some (Some AwaitingConfirmation))"
| "confirming (Book u now iid sel) = sel_confirmed sel"
| "confirming _ = True"

subsection \<open>Status transitions of the code\<close>

text \<open>
  The transitions the handlers make, by command. Only booking and
  \<^verbatim>\<open>move_to_next_round\<close> look at the current status before they write.
\<close>

fun code_edge :: "command \<Rightarrow> status option \<Rightarrow> status option \<Rightarrow> bool" where
  "code_edge (Create u now g r) s s' = False"
| "code_edge (Update u now iid r) s s' = (iu_interview_status r = Some s')"
| "code_edge (Book u now iid sel) s s' =
     (s = Some AwaitingConfirmation
      \<and> s' = Some (if sel_confirmed sel then Confirmed else AwaitingConfirmation))"
| "code_edge (PortalBook pc now iid sid) s s' = (s = Some AwaitingConfirmation \<and> s' = Some Confirmed)"
| "code_edge (PublicBook now iid sid token) s s' = (s = Some AwaitingConfirmation \<and> s' = Some Confirmed)"
| "code_edge (SendInvite u now ext iid request) s s' = (s = Some Confirmed \<and> s' = Some Scheduled)"
| "code_edge (MarkCompleted u now iid) s s' = (s' = Some Completed)"
| "code_edge (MarkNoShow u now iid) s s' = (s' = Some NoShow)"
| "code_edge (Cancel u now iid) s s' = (s' = Some Cancelled)"
| "code_edge (MoveToNextRound u now iid r) s s' = (s \<in> {Some Completed, Some Scheduled} \<and> s' = Some Passed)"
| "code_edge (Reject u now iid r) s s' = (s' = Some Failed)"
| "code_edge (InitiateHiring u now iid r) s s' = (s' = Some Passed)"

subsection \<open>The no-show ledger\<close>

definition no_show_total :: "candidate \<Rightarrow> int" where
  "no_show_total c = (case cand_no_show_count c of None \<Rightarrow> 0 | Some n \<Rightarrow> n)"

definition no_show_sum :: "string \<Rightarrow> db \<Rightarrow> int" where
  "no_show_sum cid d = sum_list (map no_show_count (filter (\<lambda>i. candidate_id i = cid) (interviews d)))"

definition ledger_ok :: "db \<Rightarrow> bool" where
  "ledger_ok d =
     (distinct (map cand_candidate_id (candidates d))
      \<and> list_all (\<lambda>c. no_show_total c = no_show_sum (cand_candidate_id c) d) (candidates d)
      \<and> list_all (\<lambda>i. 0 \<le> no_show_count i
                       \<and> candidate_id i \<in> set (map cand_candidate_id (candidates d))) (interviews d))"

text \<open>A database before any interview exists: candidates are unique and have no count yet.\<close>

definition initial :: "db \<Rightarrow> bool" where
  "initial d =
     (interviews d = []
      \<and> distinct (map cand_candidate_id (candidates d))
      \<and> list_all (\<lambda>c. cand_no_show_count c = None) (candidates d))"

definition interview_no_shows :: "string \<Rightarrow> db \<Rightarrow> int option" where
  "interview_no_shows iid d = map_option no_show_count (find_one (has_id iid) (interviews d))"

definition candidate_no_shows :: "string \<Rightarrow> db \<Rightarrow> int option" where
  "candidate_no_shows cid d = map_option no_show_total (find_one (is_cand cid) (candidates d))"

text \<open>What the ledger reads of a candidate: the id and the stored count.\<close>

definition ledger_key :: "candidate \<Rightarrow> string \<times> int option" where
  "ledger_key c = (cand_candidate_id c, cand_no_show_count c)"

subsection \<open>Dashboard counts\<close>

text \<open>The interviews a statistics request matches, and how many of them carry a status.\<close>

definition counted :: "user \<Rightarrow> string option \<Rightarrow> db \<Rightarrow> interview list" where
  "counted u cid d = filter (stats_query u cid) (interviews d)"

definition with_status :: "status \<Rightarrow> interview list \<Rightarrow> int" where
  "with_status s m = int (length (filter (\<lambda>i. interview_status i = Some s) m))"

fun get_stat :: "stat_key \<Rightarrow> pipeline_stats \<Rightarrow> int" where
  "get_stat Key_awaiting_confirmation st = awaiting_confirmation st"
| "get_stat Key_confirmed st = confirmed st"
| "get_stat Key_scheduled st = scheduled st"
| "get_stat Key_completed st = completed st"
| "get_stat Key_no_shows st = no_shows st"
| "get_stat Key_cancelled st = cancelled st"

section \<open>A sample tenant\<close>

text \<open>
  One job of client A with one candidate, an administrator, and a client user of another
  tenant. The sample request proposes two one-hour slots.
\<close>

definition admin :: user where
  "admin = \<lparr>user_email = ''admin@arbeit.com'', user_role = ''admin'', user_client_id = None\<rparr>"

definition outsider :: user where
  "outsider = \<lparr>user_email = ''client@other.com'', user_role = ''client_user'',
               user_client_id = Some ''client_b''\<rparr>"

definition cand_1 :: candidate where
  "cand_1 =
     \<lparr>cand_candidate_id = ''cand_1'', cand_job_id = ''job_1'', cand_name = Some ''Asha Rao'',
      cand_email = Some ''asha@example.com'', cand_portal_id = None, cand_status = ''NEW'',
      cand_current_round = None, cand_no_show_count = None, cand_last_interview_passed = None,
      cand_rejection_reason = None, cand_rejected_at_round = None,
      cand_total_rounds_cleared = None, cand_selected_at = None, cand_selected_by = None,
      cand_salary_offered = None, cand_proposed_joining_date = None, cand_offer_notes = None,
      cand_updated_at = None\<rparr>"

definition db0 :: db where
  "db0 =
     \<lparr>interviews = [],
      candidates = [cand_1],
      jobs = [\<lparr>job_job_id = ''job_1'', job_client_id = ''client_a'',
               job_title = Some ''Backend Engineer''\<rparr>],
      clients = [\<lparr>client_client_id = ''client_a'', client_company_name = Some ''Client A''\<rparr>]\<rparr>"

definition hex1 :: uuid_source where
  "hex1 = \<lparr>interview_hex = ''1'', slot_hex = (\<lambda>n. if n = 0 then ''a'' else ''b'')\<rparr>"

definition hex2 :: uuid_source where
  "hex2 = \<lparr>interview_hex = ''2'', slot_hex = (\<lambda>n. if n = 0 then ''c'' else ''d'')\<rparr>"

definition slot_am :: slot_request where
  "slot_am = \<lparr>req_start_time = Some ''2025-01-20T10:00:00Z'', req_end_time = Some ''2025-01-20T11:00:00Z''\<rparr>"

definition slot_pm :: slot_request where
  "slot_pm = \<lparr>req_start_time = Some ''2025-01-20T14:00:00Z'', req_end_time = Some ''2025-01-20T15:00:00Z''\<rparr>"

definition request_for :: "int \<Rightarrow> slot_request list \<Rightarrow> interview_create" where
  "request_for round slots =
     \<lparr>ic_job_id = ''job_1'', ic_candidate_id = ''cand_1'', ic_interview_mode = ''Video'',
      ic_interview_duration = 60, ic_time_zone = ''Asia/Kolkata'', ic_proposed_slots = slots,
      ic_meeting_link = None, ic_additional_instructions = None, ic_interview_round = round,
      ic_round_name = None\<rparr>"

definition job_1 :: job where
  "job_1 = \<lparr>job_job_id = ''job_1'', job_client_id = ''client_a'',
            job_title = Some ''Backend Engineer''\<rparr>"

definition iv1 :: interview where
  "iv1 = interview_doc admin ''t0'' hex1 (request_for 1 [slot_am, slot_pm]) job_1"

definition pick_a :: slot_selection where
  "pick_a = \<lparr>sel_slot_id = ''slot_a'', sel_confirmed = True\<rparr>"

definition db1 :: db where
  "db1 = fst (create_interview admin ''t0'' hex1 (request_for 1 [slot_am, slot_pm]) db0)"

definition slot_backwards :: slot_request where
  "slot_backwards = \<lparr>req_start_time = Some ''2025-01-20T11:00:00Z'', req_end_time = Some ''2025-01-20T10:00:00Z''\<rparr>"

definition pick_b :: slot_selection where
  "pick_b = \<lparr>sel_slot_id = ''slot_b'', sel_confirmed = True\<rparr>"

definition pick_a_unconfirmed :: slot_selection where
  "pick_a_unconfirmed = \<lparr>sel_slot_id = ''slot_a'', sel_confirmed = False\<rparr>"

text \<open>The sample interview after a confirmed booking of its first slot.\<close>

definition db_booked :: db where
  "db_booked = fst (book_interview_slot admin ''t1'' ''int_1'' pick_a db1)"

text \<open>An invitation that asks for a calendar event, and a calendar service that creates it.\<close>

definition invite_with_calendar :: invite_request where
  "invite_with_calendar =
     \<lparr>ir_meeting_link = Some ''https://zoom.example/1'', ir_interview_mode = Some ''Video'',
      ir_duration_minutes = Some 30, ir_time_zone = Some ''IST (Indian Standard Time)'',
      ir_auto_create_calendar_event = Some True\<rparr>"

definition calendar_up :: external where
  "calendar_up =
     \<lparr>ext_calendar = CalendarCreated ''evt_1'' ''https://meet.google.com/abc'' ''https://calendar.example/evt_1'',
      ext_email_sent = True\<rparr>"

definition no_feedback :: round_request where
  "no_feedback = \<lparr>rr_feedback = None, rr_rating = None, rr_next_round_name = None\<rparr>"

text \<open>
  Two interviews of the sample candidate, the first for round 2 and the second for round 1,
  both marked completed.
\<close>

definition db_rounds :: db where
  "db_rounds =
     run (\<lambda>x. x)
       [Create admin ''t0'' hex1 (request_for 2 [slot_am]),
        Create admin ''t0'' hex2 (request_for 1 [slot_pm]),
        MarkCompleted admin ''t1'' ''int_1'',
        MarkCompleted admin ''t1'' ''int_2''] db0"

text \<open>Creation, a confirmed booking, the invitation and completion, in this order.\<close>

definition confirmed_run :: "command list" where
  "confirmed_run =
     [Create admin ''t0'' hex1 (request_for 1 [slot_am, slot_pm]),
      Book admin ''t1'' ''int_1'' pick_a,
      SendInvite admin ''t2'' calendar_up ''int_1'' None,
      MarkCompleted admin ''t3'' ''int_1'']"

text \<open>The sample interview created and marked as a no-show once.\<close>

definition no_show_run :: "command list" where
  "no_show_run =
     [Create admin ''t0'' hex1 (request_for 1 [slot_am, slot_pm]),
      MarkNoShow admin ''t1'' ''int_1'']"

definition db_no_show :: db where
  "db_no_show = run (\<lambda>x. x) no_show_run db0"

text \<open>An update that puts the status back to awaiting confirmation and changes nothing else.\<close>

definition reopen :: interview_update where
  "reopen =
     \<lparr>iu_interview_mode = None, iu_meeting_link = None, iu_additional_instructions = None,
      iu_interview_status = Some (Some AwaitingConfirmation), iu_feedback = None,
      iu_rating = None\<rparr>"

text \<open>An update that sets the mode to null.\<close>

definition null_mode :: interview_update where
  "null_mode =
     \<lparr>iu_interview_mode = Some None, iu_meeting_link = None, iu_additional_instructions = None,
      iu_interview_status = None, iu_feedback = None, iu_rating = None\<rparr>"

text \<open>Two generated strings that differ only after their eighth digit.\<close>

definition hex_clash :: uuid_source where
  "hex_clash =
     \<lparr>interview_hex = ''3'',
      slot_hex = (\<lambda>n. if n = 0 then ''a1b2c3d4000000000000000000000001''
                       else ''a1b2c3d4000000000000000000000002'')\<rparr>"

definition pick_clash :: slot_selection where
  "pick_clash = \<lparr>sel_slot_id = ''slot_a1b2c3d4'', sel_confirmed = True\<rparr>"

section \<open>The pipeline aggregator\<close>

lemma status_UNIV: "(UNIV :: status set) = {Draft, AwaitingConfirmation, Confirmed, Scheduled, Completed, NoShow, Cancelled, Passed, Failed}"
proof -
  have "x \<in> {Draft, AwaitingConfirmation, Confirmed, Scheduled, Completed, NoShow, Cancelled, Passed, Failed}" for x :: status
    by (cases x) simp_all
  then show ?thesis by blast
qed

lemma card_status_option: "card (UNIV :: status option set) = 10"
  by (simp add: UNIV_option_conv status_UNIV card_image)

lemma finite_status_option: "finite (UNIV :: status option set)"
  by (simp add: UNIV_option_conv status_UNIV)

lemma keys_add_count: "set (map fst (add_count k g)) = insert k (set (map fst g))"
  by (induction k g rule: add_count.induct) (auto split: if_splits)

lemma distinct_add_count: "distinct (map fst g) \<Longrightarrow> distinct (map fst (add_count k g))"
proof (induction g)
  case Nil
  then show ?case by simp
next
  case (Cons a g)
  obtain k' n where a: "a = (k', n)" by (cases a)
  from Cons show ?case using keys_add_count [of k g] by (auto simp: a)
qed

lemma map_of_add_count:
  "map_of (add_count k g) = (map_of g)(k \<mapsto> (case map_of g k of None \<Rightarrow> 1 | Some n \<Rightarrow> n + 1))"
  by (induction g) (auto simp: fun_eq_iff)

lemma sum_add_count: "sum_list (map snd (add_count k g)) = sum_list (map snd g) + 1"
  by (induction g) auto

lemma distinct_fold_add_count:
  "distinct (map fst g) \<Longrightarrow> distinct (map fst (fold add_count ks g))"
  by (induction ks arbitrary: g) (simp_all add: distinct_add_count)

lemma sum_fold_add_count:
  "sum_list (map snd (fold add_count ks g)) = sum_list (map snd g) + int (length ks)"
  by (induction ks arbitrary: g) (simp_all add: sum_add_count)

lemma map_of_fold_add_count:
  "map_of (fold add_count ks g) k =
     (case map_of g k of
        None \<Rightarrow> if k \<in> set ks then Some (int (count_list ks k)) else None
      | Some n \<Rightarrow> Some (n + int (count_list ks k)))"
proof (induction ks arbitrary: g)
  case Nil
  then show ?case by (simp split: option.splits)
next
  case (Cons a ks)
  show ?case
    by (simp add: Cons.IH map_of_add_count split: option.splits)
qed

lemma distinct_group_count: "distinct (map fst (group_count ks))"
  by (simp add: group_count_def distinct_fold_add_count)

lemma sum_group_count: "sum_list (map snd (group_count ks)) = int (length ks)"
  by (simp add: group_count_def sum_fold_add_count)

lemma map_of_group_count:
  "map_of (group_count ks) k = (if k \<in> set ks then Some (int (count_list ks k)) else None)"
  by (simp add: group_count_def map_of_fold_add_count)

lemma length_group_status: "length (group_count (ks :: status option list)) \<le> 10"
proof -
  have "length (group_count ks) = card (set (map fst (group_count ks)))"
    using distinct_card [OF distinct_group_count [of ks]] by simp
  also have "\<dots> \<le> card (UNIV :: status option set)"
    by (rule card_mono [OF finite_status_option subset_UNIV])
  finally show ?thesis by (simp add: card_status_option)
qed

lemma total_fold_tally:
  "total_interviews (fold tally g st) = total_interviews st + sum_list (map snd g)"
proof (induction g arbitrary: st)
  case Nil
  then show ?case by simp
next
  case (Cons a g)
  have "total_interviews (tally a st) = total_interviews st + snd a"
    by (cases "status_mapping (fst a)"; cases "the (status_mapping (fst a))") (simp_all add: tally_def)
  then show ?case by (simp add: Cons.IH)
qed

lemma take_group_status: "take 100 (group_count (ks :: status option list)) = group_count ks"
  using length_group_status [of ks] by simp

lemma get_set_stat: "get_stat key (set_stat key' n st) = (if key = key' then n else get_stat key st)"
  by (cases key; cases key') simp_all

lemma get_stat_total: "get_stat key (st\<lparr>total_interviews := x\<rparr>) = get_stat key st"
  by (cases key) simp_all

lemma status_mapping_inj: "status_mapping k = Some key \<Longrightarrow> status_mapping s = Some key \<Longrightarrow> k = s"
  by (cases k rule: status_mapping.cases; cases s rule: status_mapping.cases) simp_all

lemma get_stat_tally:
  "get_stat key (tally a st) = (if status_mapping (fst a) = Some key then snd a else get_stat key st)"
  by (cases "status_mapping (fst a)") (auto simp: tally_def Let_def get_stat_total get_set_stat)

lemma bucket_fold_tally:
  "distinct (map fst g) \<Longrightarrow> status_mapping s = Some key \<Longrightarrow>
   get_stat key (fold tally g st) = (case map_of g s of None \<Rightarrow> get_stat key st | Some n \<Rightarrow> n)"
proof (induction g arbitrary: st)
  case Nil
  then show ?case by simp
next
  case (Cons a g)
  obtain k n where a: "a = (k, n)" by (cases a)
  show ?case
  proof (cases "k = s")
    case True
    with Cons.prems a have "map_of g s = None"
      by (simp add: map_of_eq_None_iff)
    with Cons True a show ?thesis by (simp add: get_stat_tally)
  next
    case False
    with Cons.prems have "status_mapping k \<noteq> Some key"
      using status_mapping_inj by blast
    with Cons False a show ?thesis by (simp add: get_stat_tally split: option.splits)
  qed
qed

lemma count_list_map: "int (count_list (map interview_status m) (Some s)) = with_status s m"
  by (induction m) (simp_all add: with_status_def)

lemma bucket_value:
  assumes "status_mapping (Some s) = Some key"
  shows "get_stat key (get_interview_pipeline_stats u cid d) = with_status s (counted u cid d)"
proof -
  let ?ks = "map interview_status (counted u cid d)"
  have "get_stat key (fold tally (group_count ?ks) empty_stats) =
          (case map_of (group_count ?ks) (Some s) of None \<Rightarrow> get_stat key empty_stats | Some n \<Rightarrow> n)"
    by (rule bucket_fold_tally [OF distinct_group_count assms])
  also have "\<dots> = int (count_list ?ks (Some s))"
    by (cases key) (simp_all add: map_of_group_count empty_stats_def count_list_0_iff)
  finally show ?thesis
    by (simp add: get_interview_pipeline_stats_def status_counts_def take_group_status
        counted_def [symmetric] count_list_map)
qed

lemma total_value:
  "total_interviews (get_interview_pipeline_stats u cid d) = int (length (counted u cid d))"
  by (simp add: get_interview_pipeline_stats_def status_counts_def take_group_status
      total_fold_tally sum_group_count empty_stats_def counted_def)

lemma buckets_le_length:
  "with_status AwaitingConfirmation m + with_status Confirmed m + with_status Scheduled m
     + with_status Completed m + with_status NoShow m + with_status Cancelled m
   \<le> int (length m)"
  by (induction m) (auto simp: with_status_def)

text \<open>
  Claim C8. The statistics handler has no failing branch: a status without a dashboard key
  (\<open>Draft\<close>, \<open>Passed\<close>, \<open>Failed\<close>, a null status) finds no entry in
  \<^verbatim>\<open>status_mapping\<close> and is only added to the total. The total is the number of
  matching interviews, each named bucket is the number of matching interviews in that
  status, and so the total is at least the sum of the six buckets.
\<close>

theorem pipeline_stats_total:
  "total_interviews (get_interview_pipeline_stats u cid d) = int (length (counted u cid d))
   \<and> awaiting_confirmation (get_interview_pipeline_stats u cid d)
       = with_status AwaitingConfirmation (counted u cid d)
   \<and> confirmed (get_interview_pipeline_stats u cid d) = with_status Confirmed (counted u cid d)
   \<and> scheduled (get_interview_pipeline_stats u cid d) = with_status Scheduled (counted u cid d)
   \<and> completed (get_interview_pipeline_stats u cid d) = with_status Completed (counted u cid d)
   \<and> no_shows (get_interview_pipeline_stats u cid d) = with_status NoShow (counted u cid d)
   \<and> cancelled (get_interview_pipeline_stats u cid d) = with_status Cancelled (counted u cid d)
   \<and> awaiting_confirmation (get_interview_pipeline_stats u cid d)
       + confirmed (get_interview_pipeline_stats u cid d)
       + scheduled (get_interview_pipeline_stats u cid d)
       + completed (get_interview_pipeline_stats u cid d)
       + no_shows (get_interview_pipeline_stats u cid d)
       + cancelled (get_interview_pipeline_stats u cid d)
     \<le> total_interviews (get_interview_pipeline_stats u cid d)"
proof -
  let ?st = "get_interview_pipeline_stats u cid d"
  let ?m = "counted u cid d"
  have a: "awaiting_confirmation ?st = with_status AwaitingConfirmation ?m"
    using bucket_value [of AwaitingConfirmation Key_awaiting_confirmation u cid d] by simp
  have b: "confirmed ?st = with_status Confirmed ?m"
    using bucket_value [of Confirmed Key_confirmed u cid d] by simp
  have c: "scheduled ?st = with_status Scheduled ?m"
    using bucket_value [of Scheduled Key_scheduled u cid d] by simp
  have e: "completed ?st = with_status Completed ?m"
    using bucket_value [of Completed Key_completed u cid d] by simp
  have f: "no_shows ?st = with_status NoShow ?m"
    using bucket_value [of NoShow Key_no_shows u cid d] by simp
  have g: "cancelled ?st = with_status Cancelled ?m"
    using bucket_value [of Cancelled Key_cancelled u cid d] by simp
  have t: "total_interviews ?st = int (length ?m)"
    by (rule total_value)
  show ?thesis
    unfolding a b c e f g t using buckets_le_length [of ?m] by simp
qed

section \<open>Facts about the collection operations\<close>

lemma update_one_none: "find_one p xs = None \<Longrightarrow> update_one p f xs = xs"
  by (induction xs) (auto split: if_splits)

lemma length_update_one: "length (update_one p f xs) = length xs"
  by (induction xs) auto

lemma find_update_one_same:
  "find_one p xs = Some x \<Longrightarrow> p (f x) \<Longrightarrow> find_one p (update_one p f xs) = Some (f x)"
  by (induction xs) (auto split: if_splits)

lemma find_update_one_other:
  "(\<And>x. q (f x) = q x) \<Longrightarrow> (\<And>x. p x \<Longrightarrow> \<not> q x) \<Longrightarrow>
   find_one q (update_one p f xs) = find_one q xs"
  by (induction xs) auto

lemma update_one_split:
  "find_one p xs = Some x \<Longrightarrow>
   \<exists>ys zs. xs = ys @ x # zs \<and> list_all (\<lambda>y. \<not> p y) ys \<and> update_one p f xs = ys @ f x # zs"
proof (induction xs)
  case Nil
  then show ?case by simp
next
  case (Cons a xs)
  show ?case
  proof (cases "p a")
    case True
    with Cons.prems have "a = x" by simp
    with True have "a # xs = [] @ x # xs \<and> list_all (\<lambda>y. \<not> p y) [] \<and> update_one p f (a # xs) = [] @ f x # xs"
      by simp
    then show ?thesis by blast
  next
    case False
    with Cons obtain ys zs where "xs = ys @ x # zs" "list_all (\<lambda>y. \<not> p y) ys" "update_one p f xs = ys @ f x # zs"
      by auto
    with False have "a # xs = (a # ys) @ x # zs \<and> list_all (\<lambda>y. \<not> p y) (a # ys) \<and> update_one p f (a # xs) = (a # ys) @ f x # zs"
      by simp
    then show ?thesis by blast
  qed
qed

lemma find_has_id: "find_one (has_id iid) xs = Some i \<Longrightarrow> interview_id i = iid"
  by (auto simp: find_Some_iff has_id_def)

lemma claim_id [simp]: "interview_id (claim sid rd s c now i) = interview_id i"
  by (simp add: claim_def)



section \<open>The booking contract\<close>



section \<open>The sample tenant evaluated\<close>

lemmas sample_defs =
  db1_def db0_def admin_def outsider_def cand_1_def hex1_def hex2_def slot_am_def slot_pm_def
  request_for_def job_1_def iv1_def pick_a_def

lemmas create_defs =
  create_interview_def valid_InterviewCreate_def interview_doc_def process_slots_def
  default_round_name_def is_cand_def enumerate_eq_zip upt_rec Let_def

lemma db1_interviews: "interviews db1 = [iv1]"
  by (simp add: sample_defs create_defs)




lemmas handler_defs =
  book_interview_slot_def get_interview_def set_interview_def set_candidate_def has_id_def
  access_denied_def claim_def mark_unavailable_def not_awaiting_def
  mark_interview_completed_def complete_write_def move_to_next_round_def pass_write_def
  pass_candidate_def valid_rating_def not_completed_def

lemmas update_defs =
  update_interview_def valid_InterviewUpdate_def apply_update_def set_if_def


text \<open>
  The same holds for a caller of the tenant when the mode of the interview was set to null
  by an update: the response cannot be built and the call raises.
\<close>

lemma book_raises_on_null_mode:
  "map (\<lambda>i. (interview_status i, interview_mode i, map is_available (proposed_slots i)))
     (interviews (fst (update_interview admin ''t1'' ''int_1'' null_mode db1)))
     = [(Some AwaitingConfirmation, None, [True, True])]
   \<and> snd (book_interview_slot admin ''t2'' ''int_1'' pick_a
            (fst (update_interview admin ''t1'' ''int_1'' null_mode db1)))
       = Inl InternalServerError"
  by (simp add: null_mode_def sample_defs create_defs handler_defs update_defs)

text \<open>The detail of the 400 error on the sample interview once it is confirmed.\<close>

lemma book_rejects_confirmed:
  "book_interview_slot admin ''t2'' ''int_1'' pick_b db_booked
     = (db_booked,
        Inl (HTTPException 400
               ''Interview is not awaiting confirmation (current status: Confirmed)''))"
  by (simp add: db_booked_def pick_b_def sample_defs create_defs handler_defs fmt_status_def)

section \<open>Failed bookings\<close>

text \<open>
  The four guards of the booking handlers (unknown interview, wrong status, unknown slot,
  claimed slot) return before anything is written.
\<close>

lemma book_guard_keeps_db:
  assumes "find_one (has_id iid) (interviews d) = None
           \<or> (\<exists>i. find_one (has_id iid) (interviews d) = Some i
                 \<and> (interview_status i \<noteq> Some AwaitingConfirmation
                     \<or> find_one (\<lambda>s. slot_id s = sel_slot_id sel) (proposed_slots i) = None
                     \<or> (\<exists>s. find_one (\<lambda>s. slot_id s = sel_slot_id sel) (proposed_slots i) = Some s
                             \<and> \<not> is_available s)))"
  shows "\<exists>e. book_interview_slot u now iid sel d = (d, Inl e)"
  using assms by (auto simp: book_interview_slot_def)

lemma public_book_failure_keeps_db:
  "public_book_slot tok now iid sid token d = (d', Inl e) \<Longrightarrow> d' = d"
  by (auto simp: public_book_slot_def split: if_splits option.splits)

lemma portal_book_failure_keeps_db:
  "candidate_portal_book_slot pc now iid sid d = (d', Inl e) \<Longrightarrow> d' = d"
  by (auto simp: candidate_portal_book_slot_def split: if_splits option.splits)

text \<open>
  Claim C9. \<^verbatim>\<open>book_interview_slot\<close> checks the tenant only through the
  \<^verbatim>\<open>get_interview\<close> call that builds its response, after the update. A client user
  of another tenant who books the first slot of the sample interview is answered 403, and
  the stored interview is nevertheless confirmed on that slot: the failed call has changed
  the status, the selected slot, the scheduled start and the availability flag.
\<close>

theorem book_denied_after_write:
  "snd (book_interview_slot outsider ''t1'' ''int_1'' pick_a db1)
     = Inl (HTTPException 403 ''Access denied'')
   \<and> map (\<lambda>i. (interview_status i, selected_slot_id i, scheduled_start_time i,
                 updated_at i, map is_available (proposed_slots i)))
         (interviews db1)
     = [(Some AwaitingConfirmation, None, None, ''t0'', [True, True])]
   \<and> map (\<lambda>i. (interview_status i, selected_slot_id i, scheduled_start_time i,
                 updated_at i, map is_available (proposed_slots i)))
         (interviews (fst (book_interview_slot outsider ''t1'' ''int_1'' pick_a db1)))
     = [(Some Confirmed, Some ''slot_a'', Some ''2025-01-20T10:00:00Z'', ''t1'', [False, True])]"
  by (simp add: sample_defs create_defs handler_defs)

section \<open>Validation at creation\<close>

lemma create_rejects_duration:
  "ic_interview_duration r < 15 \<or> 240 < ic_interview_duration r \<Longrightarrow>
   create_interview u now g r d = (d, Inl RequestValidationError)"
  by (auto simp: create_interview_def valid_InterviewCreate_def)

text \<open>
  Claim C6. The request model of \<^verbatim>\<open>server.py\<close> constrains the duration only. A
  request of the administrator with a valid duration and no slot at all, and one whose
  only slot ends an hour before it starts, are both accepted: the handler answers with the
  new interview and the collection holds it.
\<close>

theorem create_accepts_bad_slots:
  "snd (create_interview admin ''t0'' hex1 (request_for 1 []) db0)
     = Inr (interview_doc admin ''t0'' hex1 (request_for 1 []) job_1)
   \<and> map proposed_slots (interviews (fst (create_interview admin ''t0'' hex1 (request_for 1 []) db0)))
     = [[]]
   \<and> snd (create_interview admin ''t0'' hex1 (request_for 1 [slot_backwards]) db0)
     = Inr (interview_doc admin ''t0'' hex1 (request_for 1 [slot_backwards]) job_1)
   \<and> map (map (\<lambda>s. (start_time s, end_time s)) \<circ> proposed_slots)
         (interviews (fst (create_interview admin ''t0'' hex1 (request_for 1 [slot_backwards]) db0)))
     = [[(Some ''2025-01-20T11:00:00Z'', Some ''2025-01-20T10:00:00Z'')]]"
  by (simp add: sample_defs create_defs slot_backwards_def)

section \<open>Round progression\<close>

text \<open>
  Claim C5, as stated, fails: the candidate's round is overwritten with the round of the
  interview that was passed plus one. With a round-2 and a round-1 interview of the same
  candidate, both completed, passing the round-2 interview sets the candidate's
  \<^verbatim>\<open>current_round\<close> to 3 and passing the round-1 interview afterwards sets it to 2.
\<close>

theorem current_round_decreases:
  "snd (move_to_next_round admin ''t2'' ''int_1'' no_feedback db_rounds) = Inr (2, 3)
   \<and> map cand_current_round
         (candidates (fst (move_to_next_round admin ''t2'' ''int_1'' no_feedback db_rounds)))
     = [Some 3]
   \<and> snd (move_to_next_round admin ''t3'' ''int_2'' no_feedback
            (fst (move_to_next_round admin ''t2'' ''int_1'' no_feedback db_rounds)))
     = Inr (1, 2)
   \<and> map cand_current_round
         (candidates (fst (move_to_next_round admin ''t3'' ''int_2'' no_feedback
            (fst (move_to_next_round admin ''t2'' ''int_1'' no_feedback db_rounds)))))
     = [Some 2]"
  by (simp add: db_rounds_def run_def no_feedback_def sample_defs create_defs handler_defs)

lemma pass_write_id [simp]: "interview_id (pass_write u now r i) = interview_id i"
  by (simp add: pass_write_def)

lemma pass_candidate_id [simp]: "cand_candidate_id (pass_candidate now n iid c) = cand_candidate_id c"
  by (simp add: pass_candidate_def)

lemma find_is_cand: "find_one (is_cand cid) xs = Some c \<Longrightarrow> cand_candidate_id c = cid"
  by (auto simp: find_Some_iff is_cand_def)

lemma find_set_candidate:
  "find_one (is_cand cid) (candidates (set_candidate cid f d)) = Some c' \<Longrightarrow>
   (\<And>c. cand_candidate_id (f c) = cand_candidate_id c) \<Longrightarrow>
   \<exists>c. find_one (is_cand cid) (candidates d) = Some c \<and> c' = f c"
proof -
  assume a: "find_one (is_cand cid) (candidates (set_candidate cid f d)) = Some c'"
    and id: "\<And>c. cand_candidate_id (f c) = cand_candidate_id c"
  show ?thesis
  proof (cases "find_one (is_cand cid) (candidates d)")
    case None
    with a show ?thesis by (simp add: set_candidate_def update_one_none)
  next
    case (Some c)
    then have "find_one (is_cand cid) (update_one (is_cand cid) f (candidates d)) = Some (f c)"
      by (rule find_update_one_same) (simp add: is_cand_def id find_is_cand [OF Some])
    with a Some show ?thesis by (simp add: set_candidate_def)
  qed
qed

text \<open>
  Claim C5, amended. A successful \<^verbatim>\<open>move_to_next_round\<close> was made on an interview
  that was Completed or Scheduled; afterwards that interview is Passed and the candidate's
  \<^verbatim>\<open>current_round\<close> is the interview's round plus one, whatever it was before. The
  answer carries the interview's round and the next one.
\<close>

theorem move_to_next_round_effect:
  assumes "move_to_next_round u now iid request d = (d', Inr r)"
  shows "\<exists>i i' c'. find_one (has_id iid) (interviews d) = Some i
           \<and> interview_status i \<in> {Some Completed, Some Scheduled}
           \<and> find_one (has_id iid) (interviews d') = Some i'
           \<and> interview_status i' = Some Passed
           \<and> find_one (is_cand (candidate_id i)) (candidates d') = Some c'
           \<and> cand_current_round c' = Some (interview_round i + 1)
           \<and> r = (interview_round i, interview_round i + 1)"
proof -
  from assms obtain i where i: "find_one (has_id iid) (interviews d) = Some i"
    by (auto simp: move_to_next_round_def split: if_splits option.splits)
  let ?d1 = "set_interview iid (pass_write u now request) d"
  let ?d2 = "set_candidate (candidate_id i) (pass_candidate now (interview_round i) iid) ?d1"
  from assms i have st: "interview_status i \<in> {Some Completed, Some Scheduled}"
    and d': "d' = ?d2" and r: "r = (interview_round i, interview_round i + 1)"
    by (auto simp: move_to_next_round_def Let_def split: if_splits option.splits)
  from assms i obtain c' where c': "find_one (is_cand (candidate_id i)) (candidates ?d2) = Some c'"
    by (auto simp: move_to_next_round_def Let_def split: if_splits option.splits)
  from find_set_candidate [OF c'] obtain c where "c' = pass_candidate now (interview_round i) iid c"
    by auto
  then have round: "cand_current_round c' = Some (interview_round i + 1)"
    by (simp add: pass_candidate_def)
  have "find_one (has_id iid) (interviews ?d2) = Some (pass_write u now request i)"
    using i by (simp add: set_candidate_def set_interview_def find_update_one_same has_id_def find_has_id)
  moreover have "interview_status (pass_write u now request i) = Some Passed"
    by (simp add: pass_write_def)
  ultimately show ?thesis using i st c' round r d' by blast
qed

theorem move_to_next_round_effect_witness:
  "move_to_next_round admin ''t2'' ''int_2'' no_feedback db_rounds
     = (fst (move_to_next_round admin ''t2'' ''int_2'' no_feedback db_rounds), Inr (1, 2))
   \<and> (\<exists>i i' c'. find_one (has_id ''int_2'') (interviews db_rounds) = Some i
           \<and> interview_status i \<in> {Some Completed, Some Scheduled}
           \<and> find_one (has_id ''int_2'')
                (interviews (fst (move_to_next_round admin ''t2'' ''int_2'' no_feedback db_rounds))) = Some i'
           \<and> interview_status i' = Some Passed
           \<and> find_one (is_cand (candidate_id i))
                (candidates (fst (move_to_next_round admin ''t2'' ''int_2'' no_feedback db_rounds))) = Some c'
           \<and> cand_current_round c' = Some (interview_round i + 1)
           \<and> ((1, 2) :: int \<times> int) = (interview_round i, interview_round i + 1))"
proof -
  have e: "move_to_next_round admin ''t2'' ''int_2'' no_feedback db_rounds
     = (fst (move_to_next_round admin ''t2'' ''int_2'' no_feedback db_rounds), Inr (1, 2))"
    by (simp add: db_rounds_def run_def no_feedback_def sample_defs create_defs handler_defs)
  from move_to_next_round_effect [OF e] e show ?thesis by blast
qed

section \<open>Completion\<close>

lemma update_one_cong:
  "find_one p xs = Some x \<Longrightarrow> f x = g x \<Longrightarrow> update_one p f xs = update_one p g xs"
  by (induction xs) (auto split: if_splits)

lemma map_update_one: "(\<And>x. h (f x) = h x) \<Longrightarrow> map h (update_one p f xs) = map h xs"
  by (induction xs) auto

lemma map_filter_update_one:
  "(\<And>x. q (f x) = q x) \<Longrightarrow> (\<And>x. h (f x) = h x) \<Longrightarrow>
   map h (filter q (update_one p f xs)) = map h (filter q xs)"
  by (induction xs) auto

lemma complete_write_id [simp]: "interview_id (complete_write now i) = interview_id i"
  by (simp add: complete_write_def)

lemma stats_query_stamp [simp]: "stats_query u cid (i\<lparr>updated_at := t\<rparr>) = stats_query u cid i"
  by (simp add: stats_query_def split: option.splits)

lemma stats_after_stamp:
  "get_interview_pipeline_stats u cid (set_interview iid (\<lambda>i. i\<lparr>updated_at := t\<rparr>) d)
     = get_interview_pipeline_stats u cid d"
  by (simp add: get_interview_pipeline_stats_def status_counts_def set_interview_def
      map_filter_update_one)

text \<open>
  Claim C7, as stated, fails: the second call is not a no-op. It writes the interview
  again, and the stored \<^verbatim>\<open>updated_at\<close> becomes the time of the second call.
\<close>

theorem second_completion_restamps:
  "snd (mark_interview_completed admin ''t3'' ''int_1''
          (fst (mark_interview_completed admin ''t2'' ''int_1'' db_booked))) = Inr ()
   \<and> map (\<lambda>i. (interview_status i, updated_at i))
         (interviews (fst (mark_interview_completed admin ''t2'' ''int_1'' db_booked)))
     = [(Some Completed, ''t2'')]
   \<and> map (\<lambda>i. (interview_status i, updated_at i))
         (interviews (fst (mark_interview_completed admin ''t3'' ''int_1''
            (fst (mark_interview_completed admin ''t2'' ''int_1'' db_booked)))))
     = [(Some Completed, ''t3'')]"
  by (simp add: db_booked_def sample_defs create_defs handler_defs)

text \<open>
  Claim C7, amended. After a successful \<^verbatim>\<open>mark_interview_completed\<close>, the same
  caller's second call on the same interview succeeds as well and is not an error. It
  leaves the interview Completed and every status as it was, and every pipeline statistics
  request gives the same counts before and after it. It is not a no-op: of the interviews,
  candidates, jobs and clients it changes the \<^verbatim>\<open>updated_at\<close> stamp of that interview,
  which becomes the time of the second call, and nothing else.
\<close>

theorem mark_completed_idempotent:
  assumes "mark_interview_completed u now iid d = (d1, Inr r)"
  shows "\<exists>d2 i2. mark_interview_completed u now' iid d1 = (d2, Inr ())
           \<and> d2 = set_interview iid (\<lambda>i. i\<lparr>updated_at := now'\<rparr>) d1
           \<and> find_one (has_id iid) (interviews d2) = Some i2
           \<and> interview_status i2 = Some Completed
           \<and> map interview_status (interviews d2) = map interview_status (interviews d1)
           \<and> get_interview_pipeline_stats v cid d2 = get_interview_pipeline_stats v cid d1"
proof -
  from assms obtain i where i: "find_one (has_id iid) (interviews d) = Some i"
    and ok: "\<not> access_denied u i" and d1: "d1 = set_interview iid (complete_write now) d"
    by (auto simp: mark_interview_completed_def split: if_splits option.splits)
  let ?i1 = "complete_write now i"
  have i1: "find_one (has_id iid) (interviews d1) = Some ?i1"
    using i by (simp add: d1 set_interview_def find_update_one_same has_id_def find_has_id)
  have ok1: "\<not> access_denied u ?i1"
    using ok by (simp add: access_denied_def complete_write_def)
  let ?stamp = "\<lambda>i. i\<lparr>updated_at := now'\<rparr>"
  have same: "complete_write now' ?i1 = ?stamp ?i1"
    by (simp add: complete_write_def)
  have d2: "set_interview iid (complete_write now') d1 = set_interview iid ?stamp d1"
    unfolding set_interview_def
    using update_one_cong [of "has_id iid" "interviews d1" ?i1 "complete_write now'" ?stamp] i1 same
    by simp
  have call: "mark_interview_completed u now' iid d1 = (set_interview iid ?stamp d1, Inr ())"
    using i1 ok1 d2 by (simp add: mark_interview_completed_def)
  have "has_id iid (?stamp ?i1)"
    using find_has_id [OF i1] by (simp add: has_id_def)
  then have "find_one (has_id iid) (update_one (has_id iid) ?stamp (interviews d1)) = Some (?stamp ?i1)"
    by (rule find_update_one_same [OF i1])
  then have found: "find_one (has_id iid) (interviews (set_interview iid ?stamp d1)) = Some (?stamp ?i1)"
    by (simp add: set_interview_def)
  have st: "interview_status (?stamp ?i1) = Some Completed"
    by (simp add: complete_write_def)
  have statuses: "map interview_status (interviews (set_interview iid ?stamp d1))
      = map interview_status (interviews d1)"
    by (simp add: set_interview_def map_update_one)
  from call found st statuses stats_after_stamp [of v cid iid now' d1]
  have "mark_interview_completed u now' iid d1 = (set_interview iid ?stamp d1, Inr ())
           \<and> set_interview iid ?stamp d1 = set_interview iid (\<lambda>i. i\<lparr>updated_at := now'\<rparr>) d1
           \<and> find_one (has_id iid) (interviews (set_interview iid ?stamp d1)) = Some (?stamp ?i1)
           \<and> interview_status (?stamp ?i1) = Some Completed
           \<and> map interview_status (interviews (set_interview iid ?stamp d1)) = map interview_status (interviews d1)
           \<and> get_interview_pipeline_stats v cid (set_interview iid ?stamp d1) = get_interview_pipeline_stats v cid d1"
    by (intro conjI) simp_all
  then show ?thesis by (intro exI)
qed

theorem mark_completed_idempotent_witness:
  "mark_interview_completed admin ''t2'' ''int_1'' db_booked
     = (fst (mark_interview_completed admin ''t2'' ''int_1'' db_booked), Inr ())
   \<and> (\<exists>d2 i2. mark_interview_completed admin ''t3'' ''int_1''
                  (fst (mark_interview_completed admin ''t2'' ''int_1'' db_booked)) = (d2, Inr ())
           \<and> find_one (has_id ''int_1'') (interviews d2) = Some i2
           \<and> interview_status i2 = Some Completed
           \<and> get_interview_pipeline_stats admin None d2
               = get_interview_pipeline_stats admin None
                   (fst (mark_interview_completed admin ''t2'' ''int_1'' db_booked)))"
proof -
  have e: "mark_interview_completed admin ''t2'' ''int_1'' db_booked
     = (fst (mark_interview_completed admin ''t2'' ''int_1'' db_booked), Inr ())"
    by (simp add: db_booked_def sample_defs create_defs handler_defs)
  from mark_completed_idempotent [OF e, of "''t3''" admin None]
  obtain d2 i2 where "mark_interview_completed admin ''t3'' ''int_1''
                  (fst (mark_interview_completed admin ''t2'' ''int_1'' db_booked)) = (d2, Inr ())"
    "find_one (has_id ''int_1'') (interviews d2) = Some i2"
    "interview_status i2 = Some Completed"
    "get_interview_pipeline_stats admin None d2
               = get_interview_pipeline_stats admin None
                   (fst (mark_interview_completed admin ''t2'' ''int_1'' db_booked))"
    by blast
  with e show ?thesis by blast
qed

section \<open>The invitation\<close>

lemmas invite_defs =
  send_interview_invite_def invite_write_def invite_link_def invite_mode_def
  invite_duration_def invite_time_zone_def wants_calendar_def create_google_calendar_event_def
  template_raises_def py_isspace_def

text \<open>
  Claim C10, as stated, fails for the meeting link: when the request asks for a calendar
  event and the calendar service creates one, the stored link is the one of the event and
  not the one of the request.
\<close>

theorem invite_link_from_calendar:
  "snd (send_interview_invite admin ''t2'' calendar_up ''int_1'' (Some invite_with_calendar) db_booked)
     = Inr \<lparr>resp_email_sent = True, resp_meeting_link = Some ''https://meet.google.com/abc'',
            resp_calendar_event_created = True\<rparr>
   \<and> map meeting_link
         (interviews (fst (send_interview_invite admin ''t2'' calendar_up ''int_1''
                             (Some invite_with_calendar) db_booked)))
     = [Some ''https://meet.google.com/abc'']
   \<and> ir_meeting_link invite_with_calendar = Some ''https://zoom.example/1''"
  by (simp add: db_booked_def invite_with_calendar_def calendar_up_def sample_defs create_defs
      handler_defs invite_defs)

lemma invite_write_id [simp]: "interview_id (invite_write u now request cal rd i) = interview_id i"
  by (simp add: invite_write_def Let_def split: option.splits calendar_result.splits)

text \<open>
  Claim C10, amended. A successful \<^verbatim>\<open>send_interview_invite\<close> marks the invite as
  sent and overwrites four fields of the stored interview, whatever they held before.
  Without a request body they become Video, 30 minutes, \<open>IST (Indian Standard Time)\<close>
  and the empty link. With a body, mode, duration and time zone become the values of
  the body, and the link becomes the link of the body, unless the body asks for a
  calendar event, the interview has a scheduled start and the calendar service creates
  the event: then the link is the one of the event.
\<close>

theorem send_invite_overwrites:
  assumes "send_interview_invite u now ext iid request d = (d', Inr r)"
  shows "\<exists>i i'. find_one (has_id iid) (interviews d) = Some i
           \<and> find_one (has_id iid) (interviews d') = Some i'
           \<and> invite_sent i'
           \<and> (request = None \<longrightarrow>
                 interview_mode i' = Some ''Video'' \<and> duration_minutes i' = Some 30
                 \<and> time_zone i' = Some ''IST (Indian Standard Time)'' \<and> meeting_link i' = Some [])
           \<and> (\<forall>b. request = Some b \<longrightarrow>
                 interview_mode i' = ir_interview_mode b
                 \<and> duration_minutes i' = ir_duration_minutes b
                 \<and> time_zone i' = ir_time_zone b
                 \<and> (\<forall>eid link cl.
                       ir_auto_create_calendar_event b = Some True \<and> scheduled_start_time i \<noteq> None
                       \<and> ext_calendar ext = CalendarCreated eid link cl
                       \<longrightarrow> meeting_link i' = Some link)
                 \<and> (ir_auto_create_calendar_event b \<noteq> Some True \<or> scheduled_start_time i = None
                       \<or> ext_calendar ext = CalendarFailed
                       \<longrightarrow> meeting_link i' = ir_meeting_link b))"
proof -
  from assms obtain i where i: "find_one (has_id iid) (interviews d) = Some i"
    by (auto simp: send_interview_invite_def split: if_splits option.splits)
  define cal where "cal = (if wants_calendar request
                              then Some (create_google_calendar_event ext (scheduled_start_time i))
                              else None)"
  let ?i' = "invite_write u now request cal i i"
  from assms i have d': "d' = set_interview iid (invite_write u now request cal i) d"
    by (auto simp: send_interview_invite_def Let_def cal_def split: if_splits option.splits)
  have "has_id iid ?i'"
    using find_has_id [OF i] by (simp add: has_id_def)
  then have "find_one (has_id iid) (update_one (has_id iid) (invite_write u now request cal i) (interviews d)) = Some ?i'"
    by (rule find_update_one_same [OF i])
  then have i': "find_one (has_id iid) (interviews d') = Some ?i'"
    by (simp add: d' set_interview_def)
  have sent: "invite_sent ?i'"
    by (simp add: invite_write_def Let_def split: option.splits calendar_result.splits)
  have none: "request = None \<Longrightarrow>
      interview_mode ?i' = Some ''Video'' \<and> duration_minutes ?i' = Some 30
      \<and> time_zone ?i' = Some ''IST (Indian Standard Time)'' \<and> meeting_link ?i' = Some []"
    by (simp add: invite_write_def Let_def cal_def invite_link_def invite_mode_def
        invite_duration_def invite_time_zone_def wants_calendar_def)
  have some: "interview_mode ?i' = ir_interview_mode b
                 \<and> duration_minutes ?i' = ir_duration_minutes b
                 \<and> time_zone ?i' = ir_time_zone b
                 \<and> (\<forall>eid link cl.
                       ir_auto_create_calendar_event b = Some True \<and> scheduled_start_time i \<noteq> None
                       \<and> ext_calendar ext = CalendarCreated eid link cl
                       \<longrightarrow> meeting_link ?i' = Some link)
                 \<and> (ir_auto_create_calendar_event b \<noteq> Some True \<or> scheduled_start_time i = None
                       \<or> ext_calendar ext = CalendarFailed
                       \<longrightarrow> meeting_link ?i' = ir_meeting_link b)"
    if "request = Some b" for b
    using that
    by (auto simp: invite_write_def Let_def cal_def invite_link_def invite_mode_def
        invite_duration_def invite_time_zone_def wants_calendar_def
        create_google_calendar_event_def split: option.splits calendar_result.splits)
  from i i' sent none some show ?thesis by blast
qed

theorem send_invite_overwrites_witness:
  "send_interview_invite admin ''t2'' calendar_up ''int_1'' (Some invite_with_calendar) db_booked
     = (fst (send_interview_invite admin ''t2'' calendar_up ''int_1'' (Some invite_with_calendar) db_booked),
        Inr \<lparr>resp_email_sent = True, resp_meeting_link = Some ''https://meet.google.com/abc'',
             resp_calendar_event_created = True\<rparr>)
   \<and> (\<exists>i i'. find_one (has_id ''int_1'') (interviews db_booked) = Some i
           \<and> find_one (has_id ''int_1'') (interviews (fst (send_interview_invite admin ''t2'' calendar_up ''int_1'' (Some invite_with_calendar) db_booked))) = Some i'
           \<and> invite_sent i'
           \<and> (Some invite_with_calendar = None \<longrightarrow>
                 interview_mode i' = Some ''Video'' \<and> duration_minutes i' = Some 30
                 \<and> time_zone i' = Some ''IST (Indian Standard Time)'' \<and> meeting_link i' = Some [])
           \<and> (\<forall>b. Some invite_with_calendar = Some b \<longrightarrow>
                 interview_mode i' = ir_interview_mode b
                 \<and> duration_minutes i' = ir_duration_minutes b
                 \<and> time_zone i' = ir_time_zone b
                 \<and> (\<forall>eid link cl.
                       ir_auto_create_calendar_event b = Some True \<and> scheduled_start_time i \<noteq> None
                       \<and> ext_calendar calendar_up = CalendarCreated eid link cl
                       \<longrightarrow> meeting_link i' = Some link)
                 \<and> (ir_auto_create_calendar_event b \<noteq> Some True \<or> scheduled_start_time i = None
                       \<or> ext_calendar calendar_up = CalendarFailed
                       \<longrightarrow> meeting_link i' = ir_meeting_link b)))"
proof -
  have e: "send_interview_invite admin ''t2'' calendar_up ''int_1'' (Some invite_with_calendar) db_booked
     = (fst (send_interview_invite admin ''t2'' calendar_up ''int_1'' (Some invite_with_calendar) db_booked),
        Inr \<lparr>resp_email_sent = True, resp_meeting_link = Some ''https://meet.google.com/abc'',
             resp_calendar_event_created = True\<rparr>)"
    by (simp add: db_booked_def invite_with_calendar_def calendar_up_def sample_defs create_defs
        handler_defs invite_defs)
  show ?thesis
    by (rule conjI [OF e send_invite_overwrites [OF e]])
qed

section \<open>The shape of a step\<close>

lemma interviews_set_candidate [simp]: "interviews (set_candidate cid f d) = interviews d"
  by (simp add: set_candidate_def)

lemma candidates_set_interview [simp]: "candidates (set_interview iid f d) = candidates d"
  by (simp add: set_interview_def)

lemma find_one_mem: "find_one p xs = Some x \<Longrightarrow> x \<in> set xs \<and> p x"
  by (induction xs) (auto split: if_splits)

lemma replaced_set_interview:
  assumes "find_one (has_id iid) (interviews d) = Some i"
  shows "replaced (interviews d) (interviews (set_interview iid f d)) i (f i)"
  using update_one_split [OF assms, of f]
  by (auto simp: set_interview_def replaced_def)

text \<open>
  Every handler either leaves the interviews as they are or puts what it writes in the
  place of the first interview with the given id, which passed its check.
\<close>

lemma booking_shape:
  assumes "find_one (has_id iid) (interviews d) = Some i" and "bookable sid i"
  shows "\<exists>s. chosen sid i = Some s \<and> is_available s
           \<and> find_one (\<lambda>s. slot_id s = sid) (proposed_slots i) = Some s
           \<and> interview_status i = Some AwaitingConfirmation
           \<and> replaced (interviews d) (interviews (set_interview iid (claim sid i s conf now) d))
                i (booked sid conf now i)"
proof -
  from assms(2) obtain s where s: "chosen sid i = Some s" "is_available s"
    and st: "interview_status i = Some AwaitingConfirmation"
    by (auto simp: bookable_def split: option.splits)
  have "claim sid i s conf now i = booked sid conf now i"
    using s by (simp add: booked_def)
  with replaced_set_interview [OF assms(1), where f = "claim sid i s conf now"] s st show ?thesis
    by (auto simp: chosen_def)
qed

lemma not_bookable:
  "\<not> bookable sid i \<Longrightarrow>
   interview_status i \<noteq> Some AwaitingConfirmation
   \<or> find_one (\<lambda>s. slot_id s = sid) (proposed_slots i) = None
   \<or> (\<exists>s. find_one (\<lambda>s. slot_id s = sid) (proposed_slots i) = Some s \<and> \<not> is_available s)"
  by (auto simp: bookable_def chosen_def split: option.splits)

lemma book_shape:
  "interviews (fst (book_interview_slot u now iid sel d)) = interviews d
   \<or> (\<exists>i. bookable (sel_slot_id sel) i
         \<and> replaced (interviews d) (interviews (fst (book_interview_slot u now iid sel d)))
              i (booked (sel_slot_id sel) (sel_confirmed sel) now i))"
proof (cases "find_one (has_id iid) (interviews d)")
  case None
  then show ?thesis by (simp add: book_interview_slot_def)
next
  case (Some i)
  show ?thesis
  proof (cases "bookable (sel_slot_id sel) i")
    case False
    from not_bookable [OF this] Some show ?thesis
      by (auto simp: book_interview_slot_def)
  next
    case True
    from booking_shape [OF Some True, of "sel_confirmed sel" now] Some True show ?thesis
      by (auto simp: book_interview_slot_def Let_def)
  qed
qed

lemma public_book_shape:
  "interviews (fst (public_book_slot tok now iid sid token d)) = interviews d
   \<or> (\<exists>i. bookable sid i
         \<and> replaced (interviews d) (interviews (fst (public_book_slot tok now iid sid token d)))
              i (booked sid True now i))"
proof (cases "find_one (has_id iid) (interviews d)")
  case None
  then show ?thesis by (simp add: public_book_slot_def)
next
  case (Some i)
  show ?thesis
  proof (cases "bookable sid i")
    case False
    from not_bookable [OF this] Some show ?thesis
      by (auto simp: public_book_slot_def)
  next
    case True
    from booking_shape [OF Some True, of True now] Some True show ?thesis
      by (auto simp: public_book_slot_def)
  qed
qed

lemma portal_book_shape:
  "interviews (fst (candidate_portal_book_slot pc now iid sid d)) = interviews d
   \<or> (\<exists>i. bookable sid i
         \<and> replaced (interviews d) (interviews (fst (candidate_portal_book_slot pc now iid sid d)))
              i (booked sid True now i))"
proof (cases "find_one (has_id iid) (interviews d)")
  case None
  then show ?thesis by (simp add: candidate_portal_book_slot_def)
next
  case (Some i)
  show ?thesis
  proof (cases "bookable sid i")
    case False
    from not_bookable [OF this] Some show ?thesis
      by (auto simp: candidate_portal_book_slot_def)
  next
    case True
    from booking_shape [OF Some True, of True now] Some True show ?thesis
      by (auto simp: candidate_portal_book_slot_def)
  qed
qed

lemma update_shape:
  "interviews (fst (update_interview u now iid r d)) = interviews d
   \<or> (\<exists>i. replaced (interviews d) (interviews (fst (update_interview u now iid r d)))
              i (apply_update r now i))"
proof (cases "find_one (has_id iid) (interviews d)")
  case None
  then show ?thesis by (simp add: update_interview_def)
next
  case (Some i)
  from replaced_set_interview [OF Some, where f = "apply_update r now"] Some show ?thesis
    by (auto simp: update_interview_def Let_def)
qed

lemma invite_shape:
  "interviews (fst (send_interview_invite u now ext iid request d)) = interviews d
   \<or> (\<exists>i. replaced (interviews d) (interviews (fst (send_interview_invite u now ext iid request d)))
              i (written (SendInvite u now ext iid request) i))"
proof (cases "find_one (has_id iid) (interviews d)")
  case None
  then show ?thesis by (simp add: send_interview_invite_def)
next
  case (Some i)
  let ?cal = "if wants_calendar request
        then Some (create_google_calendar_event ext (scheduled_start_time i)) else None"
  from replaced_set_interview [OF Some, where f = "invite_write u now request ?cal i"] Some
  show ?thesis
    by (auto simp: send_interview_invite_def Let_def split: option.splits)
qed

lemma completed_shape:
  "interviews (fst (mark_interview_completed u now iid d)) = interviews d
   \<or> (\<exists>i. replaced (interviews d) (interviews (fst (mark_interview_completed u now iid d)))
              i (complete_write now i))"
proof (cases "find_one (has_id iid) (interviews d)")
  case None
  then show ?thesis by (simp add: mark_interview_completed_def)
next
  case (Some i)
  from replaced_set_interview [OF Some, where f = "complete_write now"] Some show ?thesis
    by (auto simp: mark_interview_completed_def)
qed

lemma cancel_shape:
  "interviews (fst (cancel_interview u now iid d)) = interviews d
   \<or> (\<exists>i. replaced (interviews d) (interviews (fst (cancel_interview u now iid d)))
              i (cancel_write now i))"
proof (cases "find_one (has_id iid) (interviews d)")
  case None
  then show ?thesis by (simp add: cancel_interview_def)
next
  case (Some i)
  from replaced_set_interview [OF Some, where f = "cancel_write now"] Some show ?thesis
    by (auto simp: cancel_interview_def)
qed

lemma no_show_shape:
  "interviews (fst (mark_interview_no_show u now iid d)) = interviews d
   \<or> (\<exists>i. replaced (interviews d) (interviews (fst (mark_interview_no_show u now iid d)))
              i (no_show_write now (no_show_count i + 1) i))"
proof (cases "find_one (has_id iid) (interviews d)")
  case None
  then show ?thesis by (simp add: mark_interview_no_show_def)
next
  case (Some i)
  from replaced_set_interview [OF Some, where f = "no_show_write now (no_show_count i + 1)"] Some
  show ?thesis
    by (auto simp: mark_interview_no_show_def Let_def)
qed

lemma move_shape:
  "interviews (fst (move_to_next_round u now iid r d)) = interviews d
   \<or> (\<exists>i. interview_status i \<in> {Some Completed, Some Scheduled}
         \<and> replaced (interviews d) (interviews (fst (move_to_next_round u now iid r d)))
              i (pass_write u now r i))"
proof (cases "find_one (has_id iid) (interviews d)")
  case None
  then show ?thesis by (simp add: move_to_next_round_def)
next
  case (Some i)
  from replaced_set_interview [OF Some, where f = "pass_write u now r"] Some show ?thesis
    by (auto simp: move_to_next_round_def Let_def split: option.splits)
qed

lemma reject_shape:
  "interviews (fst (reject_after_interview u now iid r d)) = interviews d
   \<or> (\<exists>i. replaced (interviews d) (interviews (fst (reject_after_interview u now iid r d)))
              i (fail_write u now r i))"
proof (cases "find_one (has_id iid) (interviews d)")
  case None
  then show ?thesis by (simp add: reject_after_interview_def)
next
  case (Some i)
  from replaced_set_interview [OF Some, where f = "fail_write u now r"] Some show ?thesis
    by (auto simp: reject_after_interview_def Let_def)
qed

lemma hiring_shape:
  "interviews (fst (initiate_hiring u now iid r d)) = interviews d
   \<or> (\<exists>i. replaced (interviews d) (interviews (fst (initiate_hiring u now iid r d)))
              i (hire_write u now r i))"
proof (cases "find_one (has_id iid) (interviews d)")
  case None
  then show ?thesis by (simp add: initiate_hiring_def)
next
  case (Some i)
  from replaced_set_interview [OF Some, where f = "hire_write u now r"] Some show ?thesis
    by (auto simp: initiate_hiring_def Let_def)
qed

lemma create_shape:
  "interviews (fst (create_interview u now g r d)) = interviews d
   \<or> (\<exists>j. interviews (fst (create_interview u now g r d)) = interviews d @ [interview_doc u now g r j]
         \<and> ic_candidate_id r \<in> set (map cand_candidate_id (candidates d)))"
proof -
  have "ic_candidate_id r \<in> set (map cand_candidate_id (candidates d))"
    if "find_one (is_cand (ic_candidate_id r)) (candidates d) = Some c" for c
    using find_one_mem [OF that] by (force simp: is_cand_def image_iff)
  then show ?thesis
    by (auto simp: create_interview_def Let_def split: option.splits)
qed

lemma step_shape:
  "interviews (step tok c d) = interviews d
   \<or> (\<exists>u now g r j. c = Create u now g r
         \<and> interviews (step tok c d) = interviews d @ [interview_doc u now g r j]
         \<and> ic_candidate_id r \<in> set (map cand_candidate_id (candidates d)))
   \<or> (\<exists>i. checked c i \<and> replaced (interviews d) (interviews (step tok c d)) i (written c i))"
proof (cases c)
  case (Create u now g r)
  with create_shape [of u now g r d] show ?thesis by auto
next
  case (Update u now iid r)
  with update_shape [of u now iid r d] show ?thesis by auto
next
  case (Book u now iid sel)
  with book_shape [of u now iid sel d] show ?thesis by auto
next
  case (PortalBook pc now iid sid)
  with portal_book_shape [of pc now iid sid d] show ?thesis by auto
next
  case (PublicBook now iid sid token)
  with public_book_shape [of tok now iid sid token d] show ?thesis by auto
next
  case (SendInvite u now ext iid request)
  with invite_shape [of u now ext iid request d] show ?thesis by auto
next
  case (MarkCompleted u now iid)
  with completed_shape [of u now iid d] show ?thesis by auto
next
  case (MarkNoShow u now iid)
  with no_show_shape [of u now iid d] show ?thesis by auto
next
  case (Cancel u now iid)
  with cancel_shape [of u now iid d] show ?thesis by auto
next
  case (MoveToNextRound u now iid r)
  with move_shape [of u now iid r d] show ?thesis by auto
next
  case (Reject u now iid r)
  with reject_shape [of u now iid r d] show ?thesis by auto
next
  case (InitiateHiring u now iid r)
  with hiring_shape [of u now iid r d] show ?thesis by auto
qed

section \<open>Status transitions\<close>

text \<open>
  Claim C3, as stated, fails: \<^verbatim>\<open>mark_interview_completed\<close> does not look at the current
  status. On the freshly created sample interview, still awaiting confirmation, it
  succeeds and the interview is Completed.
\<close>

theorem completed_from_awaiting:
  "map interview_status (interviews db1) = [Some AwaitingConfirmation]
   \<and> snd (mark_interview_completed admin ''t1'' ''int_1'' db1) = Inr ()
   \<and> map interview_status (interviews (fst (mark_interview_completed admin ''t1'' ''int_1'' db1)))
     = [Some Completed]"
  by (simp add: sample_defs create_defs handler_defs)

lemma written_id: "interview_id (written c i) = interview_id i"
  by (cases c)
     (simp_all add: apply_update_def booked_def claim_def invite_write_def Let_def
        complete_write_def no_show_write_def cancel_write_def pass_write_def fail_write_def
        hire_write_def split: option.splits calendar_result.splits)

lemma written_status:
  "checked c i \<Longrightarrow>
   interview_status (written c i) = interview_status i
   \<or> code_edge c (interview_status i) (interview_status (written c i))"
  by (cases c)
     (auto simp: apply_update_def set_if_def booked_def bookable_def claim_def invite_write_def
        Let_def complete_write_def no_show_write_def cancel_write_def pass_write_def
        fail_write_def hire_write_def split: option.splits calendar_result.splits)

lemma replaced_nth:
  assumes "replaced xs xs' i i'" and "k < length xs"
  shows "k < length xs' \<and> (xs' ! k = xs ! k \<or> (xs ! k = i \<and> xs' ! k = i'))"
proof -
  from assms(1) obtain ys zs where xs: "xs = ys @ i # zs" and xs': "xs' = ys @ i' # zs"
    by (auto simp: replaced_def)
  from assms(2) show ?thesis
    by (auto simp: xs xs' nth_append nth_Cons split: nat.splits)
qed

lemma step_nth:
  assumes "k < length (interviews d)"
  shows "k < length (interviews (step tok c d))
         \<and> (interviews (step tok c d) ! k = interviews d ! k
            \<or> (checked c (interviews d ! k)
                \<and> interviews (step tok c d) ! k = written c (interviews d ! k)))"
proof -
  from step_shape [of tok c d] consider
      (same) "interviews (step tok c d) = interviews d"
    | (new) x where "interviews (step tok c d) = interviews d @ [x]"
    | (put) i where "checked c i" "replaced (interviews d) (interviews (step tok c d)) i (written c i)"
    by blast
  then show ?thesis
  proof cases
    case same
    with assms show ?thesis by simp
  next
    case new
    with assms show ?thesis by (simp add: nth_append)
  next
    case put
    from replaced_nth [OF put(2) assms] put(1) show ?thesis by auto
  qed
qed

lemma mark_completed_accepted:
  assumes "find_one (has_id iid) (interviews d) = Some i" and "\<not> access_denied u i"
  shows "\<exists>d' i'. mark_interview_completed u now iid d = (d', Inr ())
           \<and> find_one (has_id iid) (interviews d') = Some i'
           \<and> interview_status i' = Some Completed"
proof -
  have "has_id iid (complete_write now i)"
    using find_has_id [OF assms(1)] by (simp add: has_id_def complete_write_def)
  then have "find_one (has_id iid) (update_one (has_id iid) (complete_write now) (interviews d))
      = Some (complete_write now i)"
    by (rule find_update_one_same [OF assms(1)])
  with assms show ?thesis
    by (simp add: mark_interview_completed_def set_interview_def complete_write_def)
qed

text \<open>
  Claim C3, amended. Whatever command is executed, every stored interview keeps its place
  and its id, and its status either stays or changes along an edge of the table
  \<open>code_edge\<close> of the code: booking goes from awaiting confirmation to Confirmed (or
  stays, when unconfirmed), the invitation from Confirmed to Scheduled,
  \<^verbatim>\<open>move_to_next_round\<close> from Completed or Scheduled to Passed; completion, no-show,
  cancellation, rejection and hiring go from any status to Completed, No Show, Cancelled,
  Failed and Passed; an update goes from any status to the status of the request. In
  particular completion is accepted in every status, for every caller who passes the
  tenant check.
\<close>

theorem code_transitions:
  "(\<forall>k < length (interviews d).
       k < length (interviews (step tok c d))
       \<and> interview_id (interviews (step tok c d) ! k) = interview_id (interviews d ! k)
       \<and> (interview_status (interviews (step tok c d) ! k) = interview_status (interviews d ! k)
          \<or> code_edge c (interview_status (interviews d ! k))
               (interview_status (interviews (step tok c d) ! k))))
   \<and> (\<forall>u now iid i. find_one (has_id iid) (interviews d) = Some i \<and> \<not> access_denied u i \<longrightarrow>
         (\<exists>d' i'. mark_interview_completed u now iid d = (d', Inr ())
            \<and> find_one (has_id iid) (interviews d') = Some i'
            \<and> interview_status i' = Some Completed))"
proof (intro conjI allI impI)
  fix k assume k: "k < length (interviews d)"
  from step_nth [OF k, of tok c] show "k < length (interviews (step tok c d))" by simp
  from step_nth [OF k, of tok c]
  show "interview_id (interviews (step tok c d) ! k) = interview_id (interviews d ! k)"
    by (auto simp: written_id)
  from step_nth [OF k, of tok c]
  show "interview_status (interviews (step tok c d) ! k) = interview_status (interviews d ! k)
          \<or> code_edge c (interview_status (interviews d ! k))
               (interview_status (interviews (step tok c d) ! k))"
    using written_status [of c "interviews d ! k"] by auto
next
  fix u now iid i
  assume "find_one (has_id iid) (interviews d) = Some i \<and> \<not> access_denied u i"
  then show "\<exists>d' i'. mark_interview_completed u now iid d = (d', Inr ())
            \<and> find_one (has_id iid) (interviews d') = Some i'
            \<and> interview_status i' = Some Completed"
    using mark_completed_accepted [of iid d i u now] by simp
qed

theorem code_transitions_witness:
  "(0::nat) < length (interviews db1)
   \<and> interview_status (interviews db1 ! 0) = Some AwaitingConfirmation
   \<and> interview_status (interviews (step (\<lambda>x. x) (MarkCompleted admin ''t1'' ''int_1'') db1) ! 0)
       = Some Completed
   \<and> (interview_status (interviews (step (\<lambda>x. x) (MarkCompleted admin ''t1'' ''int_1'') db1) ! 0)
          = interview_status (interviews db1 ! 0)
        \<or> code_edge (MarkCompleted admin ''t1'' ''int_1'') (interview_status (interviews db1 ! 0))
            (interview_status (interviews (step (\<lambda>x. x) (MarkCompleted admin ''t1'' ''int_1'') db1) ! 0)))"
proof -
  have len: "(0::nat) < length (interviews db1)"
    by (simp add: db1_interviews)
  have before: "interview_status (interviews db1 ! 0) = Some AwaitingConfirmation"
    by (simp add: db1_interviews) (simp add: iv1_def interview_doc_def)
  have after: "interview_status (interviews (step (\<lambda>x. x) (MarkCompleted admin ''t1'' ''int_1'') db1) ! 0)
       = Some Completed"
    by (simp add: sample_defs create_defs handler_defs)
  note t = code_transitions [of db1 "\<lambda>x. x" "MarkCompleted admin ''t1'' ''int_1''",
      THEN conjunct1, rule_format, OF len, THEN conjunct2, THEN conjunct2]
  show ?thesis
    by (rule conjI [OF len conjI [OF before conjI [OF after t]]])
qed

section \<open>One claimed slot\<close>

text \<open>
  Claim C1, as stated, fails: an unconfirmed booking leaves the interview awaiting
  confirmation, so a second booking is accepted. After booking the first slot of the
  sample interview without confirming and the second with confirmation, both slots are
  unavailable, and the first of them is not the selected one.
\<close>

theorem two_slots_claimed:
  "\<not> isl (snd (book_interview_slot admin ''t1'' ''int_1'' pick_a_unconfirmed db1))
   \<and> \<not> isl (snd (book_interview_slot admin ''t2'' ''int_1'' pick_b
                    (fst (book_interview_slot admin ''t1'' ''int_1'' pick_a_unconfirmed db1))))
   \<and> map (\<lambda>i. (interview_status i, selected_slot_id i, scheduled_start_time i,
                 map (\<lambda>s. (slot_id s, start_time s, is_available s)) (proposed_slots i)))
         (interviews (fst (book_interview_slot admin ''t2'' ''int_1'' pick_b
                    (fst (book_interview_slot admin ''t1'' ''int_1'' pick_a_unconfirmed db1)))))
     = [(Some Confirmed, Some ''slot_b'', Some ''2025-01-20T14:00:00Z'',
         [(''slot_a'', Some ''2025-01-20T10:00:00Z'', False),
          (''slot_b'', Some ''2025-01-20T14:00:00Z'', False)])]
   \<and> \<not> list_all one_claim
         (interviews (fst (book_interview_slot admin ''t2'' ''int_1'' pick_b
                    (fst (book_interview_slot admin ''t1'' ''int_1'' pick_a_unconfirmed db1)))))"
  by (simp add: sample_defs create_defs handler_defs pick_b_def pick_a_unconfirmed_def
      one_claim_def claimed_slots_def)

text \<open>
  Two more ways to a second claimed slot. An update may put a confirmed interview back to
  awaiting confirmation, and another slot is then booked.
\<close>

lemma update_reopens_booking:
  "map (\<lambda>i. (selected_slot_id i, map (\<lambda>s. (slot_id s, is_available s)) (proposed_slots i)))
     (interviews (run (\<lambda>x. x)
        [Create admin ''t0'' hex1 (request_for 1 [slot_am, slot_pm]),
         Book admin ''t1'' ''int_1'' pick_a,
         Update admin ''t2'' ''int_1'' reopen,
         Book admin ''t3'' ''int_1'' pick_b] db0))
   = [(Some ''slot_b'', [(''slot_a'', False), (''slot_b'', False)])]"
  by (simp add: run_def reopen_def pick_b_def sample_defs create_defs handler_defs update_defs)

text \<open>
  Two slots whose generated strings agree on the first eight digits get the same id, and
  one booking flags both.
\<close>

lemma equal_slot_ids_claimed_together:
  "\<not> confirming (Create admin ''t0'' hex_clash (request_for 1 [slot_am, slot_pm]))
   \<and> map (\<lambda>i. (selected_slot_id i, map (\<lambda>s. (slot_id s, is_available s)) (proposed_slots i)))
       (interviews (run (\<lambda>x. x)
          [Create admin ''t0'' hex_clash (request_for 1 [slot_am, slot_pm]),
           Book admin ''t1'' ''int_3'' pick_clash] db0))
     = [(Some ''slot_a1b2c3d4'', [(''slot_a1b2c3d4'', False), (''slot_a1b2c3d4'', False)])]"
  by (simp add: run_def hex_clash_def pick_clash_def sample_defs create_defs handler_defs)

lemma claimed_after_mark:
  "distinct (map slot_id ss) \<Longrightarrow> \<forall>x \<in> set ss. is_available x \<Longrightarrow>
   find_one (\<lambda>s. slot_id s = sid) ss = Some s \<Longrightarrow>
   filter (\<lambda>s. \<not> is_available s) (mark_unavailable sid ss) = [s\<lparr>is_available := False\<rparr>]"
proof (induction ss)
  case Nil
  then show ?case by simp
next
  case (Cons a ss)
  show ?case
  proof (cases "slot_id a = sid")
    case True
    with Cons.prems have s: "s = a" and rest: "\<forall>x \<in> set ss. slot_id x \<noteq> sid"
      and av: "\<forall>x \<in> set ss. is_available x"
      by (auto simp: image_iff)
    from rest have "mark_unavailable sid ss = ss"
      by (simp add: mark_unavailable_def map_idI)
    with av True s show ?thesis
      by (simp add: mark_unavailable_def filter_empty_conv)
  next
    case False
    with Cons.prems have "is_available a" "find_one (\<lambda>s. slot_id s = sid) ss = Some s"
      "distinct (map slot_id ss)" "\<forall>x \<in> set ss. is_available x"
      by auto
    with Cons.IH False show ?thesis
      by (simp add: mark_unavailable_def)
  qed
qed

lemma slot_ids_mark [simp]: "map slot_id (mark_unavailable sid ss) = map slot_id ss"
  by (simp add: mark_unavailable_def comp_def)

lemma booked_inv:
  assumes "booking_inv i" and "bookable sid i"
  shows "booking_inv (booked sid True now i)"
proof -
  from assms(2) obtain s where s: "chosen sid i = Some s"
    and st: "interview_status i = Some AwaitingConfirmation"
    by (auto simp: bookable_def split: option.splits)
  from assms(1) st have d: "distinct (map slot_id (proposed_slots i))"
    and free: "\<forall>x \<in> set (proposed_slots i). is_available x"
    by (simp_all add: booking_inv_def claimed_slots_def filter_empty_conv)
  from s have f: "find_one (\<lambda>s. slot_id s = sid) (proposed_slots i) = Some s"
    by (simp add: chosen_def)
  from find_one_mem [OF f] have sid: "slot_id s = sid" by simp
  from claimed_after_mark [OF d free f]
  have "claimed_slots (claim sid i s True now i) = [s\<lparr>is_available := False\<rparr>]"
    by (simp add: claimed_slots_def claim_def)
  with d sid show ?thesis
    by (simp add: booked_def s booking_inv_def one_claim_def) (simp add: claim_def)
qed

lemma keeps_booking_inv:
  assumes "booking_inv i"
    and "proposed_slots i' = proposed_slots i"
    and "selected_slot_id i' = selected_slot_id i"
    and "scheduled_start_time i' = scheduled_start_time i"
    and "interview_status i' = Some AwaitingConfirmation \<Longrightarrow> interview_status i = Some AwaitingConfirmation"
  shows "booking_inv i'"
  using assms by (auto simp: booking_inv_def one_claim_def claimed_slots_def)

lemma written_inv:
  assumes "confirming c" and "checked c i" and "booking_inv i"
  shows "booking_inv (written c i)"
proof (cases c)
  case (Create u now g r)
  with assms show ?thesis by simp
next
  case (Update u now iid r)
  with assms(1) have "iu_interview_status r \<noteq> Some (Some AwaitingConfirmation)" by simp
  then have "interview_status (apply_update r now i) = Some AwaitingConfirmation \<Longrightarrow>
      interview_status i = Some AwaitingConfirmation"
    by (cases "iu_interview_status r") (auto simp: apply_update_def set_if_def)
  with assms(3) Update show ?thesis
    by (auto intro!: keeps_booking_inv [of i] simp: apply_update_def)
next
  case (Book u now iid sel)
  with assms booked_inv [of i "sel_slot_id sel" now] show ?thesis by simp
next
  case (PortalBook pc now iid sid)
  with assms booked_inv [of i sid now] show ?thesis by simp
next
  case (PublicBook now iid sid token)
  with assms booked_inv [of i sid now] show ?thesis by simp
next
  case (SendInvite u now ext iid request)
  with assms(3) show ?thesis
    by (auto intro!: keeps_booking_inv [of i] simp: invite_write_def Let_def
        split: option.splits calendar_result.splits if_splits)
next
  case (MarkCompleted u now iid)
  with assms(3) show ?thesis
    by (auto intro!: keeps_booking_inv [of i] simp: complete_write_def)
next
  case (MarkNoShow u now iid)
  with assms(3) show ?thesis
    by (auto intro!: keeps_booking_inv [of i] simp: no_show_write_def)
next
  case (Cancel u now iid)
  with assms(3) show ?thesis
    by (auto intro!: keeps_booking_inv [of i] simp: cancel_write_def)
next
  case (MoveToNextRound u now iid r)
  with assms(3) show ?thesis
    by (auto intro!: keeps_booking_inv [of i] simp: pass_write_def)
next
  case (Reject u now iid r)
  with assms(3) show ?thesis
    by (auto intro!: keeps_booking_inv [of i] simp: fail_write_def)
next
  case (InitiateHiring u now iid r)
  with assms(3) show ?thesis
    by (auto intro!: keeps_booking_inv [of i] simp: hire_write_def)
qed

lemma map_enumerate_fst:
  "map (\<lambda>p. f (fst p)) (enumerate n rs) = map f [n..<n + length rs]"
proof -
  have "map (\<lambda>p. f (fst p)) (enumerate n rs) = map f (map fst (enumerate n rs))"
    by (simp only: map_map comp_def)
  then show ?thesis by simp
qed

lemma slot_ids_process:
  "map slot_id (process_slots g dur rs)
     = map (\<lambda>k. ''slot_'' @ take 8 (slot_hex g k)) [0..<length rs]"
  using map_enumerate_fst [of "\<lambda>k. ''slot_'' @ take 8 (slot_hex g k)" 0 rs]
  by (simp add: process_slots_def comp_def case_prod_beta)

lemma all_free_process: "filter (\<lambda>s. \<not> is_available s) (process_slots g dur rs) = []"
  by (auto simp: process_slots_def filter_empty_conv)

lemma created_inv:
  assumes "distinct (map (\<lambda>n. take 8 (slot_hex g n)) [0..<length (ic_proposed_slots r)])"
  shows "booking_inv (interview_doc u now g r j)"
proof -
  have "distinct (map ((@) ''slot_'')
      (map (\<lambda>n. take 8 (slot_hex g n)) [0..<length (ic_proposed_slots r)]))"
    using assms by (subst distinct_map) (auto intro: inj_onI)
  then have "distinct (map slot_id (process_slots g (ic_interview_duration r) (ic_proposed_slots r)))"
    by (simp add: slot_ids_process comp_def)
  then show ?thesis
    by (simp add: booking_inv_def one_claim_def claimed_slots_def interview_doc_def all_free_process)
qed

lemma step_inv:
  assumes "confirming c" and "list_all booking_inv (interviews d)"
  shows "list_all booking_inv (interviews (step tok c d))"
proof -
  from step_shape [of tok c d] consider
      (same) "interviews (step tok c d) = interviews d"
    | (new) u now g r j where "c = Create u now g r"
        "interviews (step tok c d) = interviews d @ [interview_doc u now g r j]"
    | (put) i where "checked c i" "replaced (interviews d) (interviews (step tok c d)) i (written c i)"
    by blast
  then show ?thesis
  proof cases
    case same
    with assms show ?thesis by simp
  next
    case new
    with assms(1) have "booking_inv (interview_doc u now g r j)"
      by (simp add: created_inv)
    with new assms(2) show ?thesis by simp
  next
    case put
    from put(2) obtain ys zs where xs: "interviews d = ys @ i # zs"
      and xs': "interviews (step tok c d) = ys @ written c i # zs"
      by (auto simp: replaced_def)
    from assms(2) xs have "booking_inv i" by simp
    from written_inv [OF assms(1) put(1) this] assms(2) show ?thesis
      by (simp add: xs xs')
  qed
qed

lemma run_inv:
  "list_all confirming cs \<Longrightarrow> list_all booking_inv (interviews d) \<Longrightarrow>
   list_all booking_inv (interviews (run tok cs d))"
  by (induction cs arbitrary: d) (simp_all add: run_def step_inv)

text \<open>
  Claim C1, amended. Start from a database without interviews and run any sequence of
  commands in which every booking through \<^verbatim>\<open>book_interview_slot\<close> confirms, no update
  sets the status back to awaiting confirmation, and the slot ids generated at a creation
  (the first eight digits of each generated string) differ from each other. Then every
  interview has at most one unavailable slot, and an unavailable slot is the one
  \<^verbatim>\<open>selected_slot_id\<close> names and gives \<^verbatim>\<open>scheduled_start_time\<close>.
\<close>

theorem one_claim_when_confirming:
  assumes "interviews d = []" and "list_all confirming cs"
  shows "\<forall>i \<in> set (interviews (run tok cs d)).
           length (claimed_slots i) \<le> 1
           \<and> (\<forall>s \<in> set (claimed_slots i).
                 selected_slot_id i = Some (slot_id s) \<and> scheduled_start_time i = start_time s)"
proof -
  from assms(1) have "list_all booking_inv (interviews d)" by simp
  from run_inv [OF assms(2) this, of tok]
  show ?thesis
    by (auto simp: list_all_iff booking_inv_def one_claim_def)
qed

theorem one_claim_when_confirming_witness:
  "interviews db0 = [] \<and> list_all confirming confirmed_run
   \<and> map (\<lambda>i. (interview_status i, selected_slot_id i, map is_available (proposed_slots i)))
         (interviews (run (\<lambda>x. x) confirmed_run db0))
     = [(Some Completed, Some ''slot_a'', [False, True])]
   \<and> list_all one_claim (interviews (run (\<lambda>x. x) confirmed_run db0))"
proof -
  have a: "interviews db0 = []" by (simp add: db0_def)
  have b: "list_all confirming confirmed_run"
    by (simp add: confirmed_run_def hex1_def request_for_def pick_a_def upt_rec)
  have c: "map (\<lambda>i. (interview_status i, selected_slot_id i, map is_available (proposed_slots i)))
         (interviews (run (\<lambda>x. x) confirmed_run db0))
     = [(Some Completed, Some ''slot_a'', [False, True])]"
    by (simp add: confirmed_run_def run_def calendar_up_def sample_defs create_defs handler_defs
        invite_defs)
  have e: "list_all one_claim (interviews (run (\<lambda>x. x) confirmed_run db0))"
    unfolding list_all_iff one_claim_def
    using one_claim_when_confirming [OF a b, of "\<lambda>x. x"] by blast
  show ?thesis
    by (rule conjI [OF a conjI [OF b conjI [OF c e]]])
qed

section \<open>The no-show ledger\<close>

lemmas no_show_defs = mark_interview_no_show_def no_show_write_def no_show_inc_def

text \<open>
  Claim C4, as stated, fails: \<^verbatim>\<open>mark_interview_no_show\<close> adds one to the count the
  interview already has and has no guard on the status. Marking the sample interview as a
  no-show twice gives the interview the count 2.
\<close>

theorem no_show_counted_twice:
  "snd (mark_interview_no_show admin ''t1'' ''int_1'' db1) = Inr 1
   \<and> snd (mark_interview_no_show admin ''t2'' ''int_1''
            (fst (mark_interview_no_show admin ''t1'' ''int_1'' db1))) = Inr 2
   \<and> map no_show_count
         (interviews (fst (mark_interview_no_show admin ''t2'' ''int_1''
            (fst (mark_interview_no_show admin ''t1'' ''int_1'' db1)))))
     = [2]"
  by (simp add: sample_defs create_defs handler_defs no_show_defs)

text \<open>The sum of the counts of one candidate's interviews, on the collection.\<close>

lemma sum_replaced:
  assumes "replaced xs xs' i i'" and "candidate_id i' = candidate_id i"
  shows "sum_list (map no_show_count (filter (\<lambda>x. candidate_id x = cid) xs'))
       = sum_list (map no_show_count (filter (\<lambda>x. candidate_id x = cid) xs))
         + (if candidate_id i = cid then no_show_count i' - no_show_count i else 0)"
proof -
  from assms(1) obtain ys zs where "xs = ys @ i # zs" "xs' = ys @ i' # zs"
    by (auto simp: replaced_def)
  with assms(2) show ?thesis by simp
qed

lemma update_one_distinct:
  "distinct (map cand_candidate_id cs) \<Longrightarrow>
   update_one (is_cand k) f cs = map (\<lambda>c. if cand_candidate_id c = k then f c else c) cs"
proof (induction cs)
  case Nil
  then show ?case by simp
next
  case (Cons a cs)
  show ?case
  proof (cases "cand_candidate_id a = k")
    case True
    with Cons.prems have "\<forall>c \<in> set cs. cand_candidate_id c \<noteq> k"
      by (auto simp: image_iff)
    then have "map (\<lambda>c. if cand_candidate_id c = k then f c else c) cs = cs"
      by (simp add: map_idI)
    with True show ?thesis by (simp add: is_cand_def)
  next
    case False
    with Cons show ?thesis by (simp add: is_cand_def)
  qed
qed

lemma written_candidate: "candidate_id (written c i) = candidate_id i"
  by (cases c)
     (simp_all add: apply_update_def booked_def claim_def invite_write_def Let_def
        complete_write_def no_show_write_def cancel_write_def pass_write_def fail_write_def
        hire_write_def split: option.splits calendar_result.splits)

lemma written_no_show:
  "no_show_count (written c i)
     = (case c of MarkNoShow u now iid \<Rightarrow> no_show_count i + 1 | _ \<Rightarrow> no_show_count i)"
  by (cases c)
     (simp_all add: apply_update_def booked_def claim_def invite_write_def Let_def
        complete_write_def no_show_write_def cancel_write_def pass_write_def fail_write_def
        hire_write_def split: option.splits calendar_result.splits)

text \<open>What a step does to the candidates: only a no-show touches the aggregate count.\<close>

lemma no_show_step:
  "step tok (MarkNoShow u now iid) d = d
   \<or> (\<exists>i. find_one (has_id iid) (interviews d) = Some i
         \<and> step tok (MarkNoShow u now iid) d
             = set_candidate (candidate_id i) no_show_inc
                 (set_interview iid (no_show_write now (no_show_count i + 1)) d))"
  by (cases "find_one (has_id iid) (interviews d)")
     (simp_all add: mark_interview_no_show_def Let_def)

lemma keys_set_candidate:
  "(\<And>x. ledger_key (f x) = ledger_key x) \<Longrightarrow>
   map ledger_key (candidates (set_candidate k f d)) = map ledger_key (candidates d)"
  by (simp add: set_candidate_def map_update_one)

lemma move_keys:
  "map ledger_key (candidates (fst (move_to_next_round u now iid r d))) = map ledger_key (candidates d)"
  by (auto simp: move_to_next_round_def Let_def keys_set_candidate ledger_key_def pass_candidate_def
      split: option.splits)

lemma reject_keys:
  "map ledger_key (candidates (fst (reject_after_interview u now iid r d))) = map ledger_key (candidates d)"
  by (auto simp: reject_after_interview_def Let_def keys_set_candidate ledger_key_def fail_candidate_def
      split: option.splits)

lemma hiring_keys:
  "map ledger_key (candidates (fst (initiate_hiring u now iid r d))) = map ledger_key (candidates d)"
  by (auto simp: initiate_hiring_def Let_def keys_set_candidate ledger_key_def hire_candidate_def
      split: option.splits)

lemma other_keys:
  assumes "\<And>u now iid. c \<noteq> MarkNoShow u now iid"
  shows "map ledger_key (candidates (step tok c d)) = map ledger_key (candidates d)"
proof (cases c)
  case (Create u now g r)
  then show ?thesis
    by (auto simp: create_interview_def Let_def split: option.splits)
next
  case (Update u now iid r)
  then show ?thesis
    by (auto simp: update_interview_def Let_def split: option.splits)
next
  case (Book u now iid sel)
  then show ?thesis
    by (auto simp: book_interview_slot_def Let_def split: option.splits)
next
  case (PortalBook pc now iid sid)
  then show ?thesis
    by (auto simp: candidate_portal_book_slot_def split: option.splits)
next
  case (PublicBook now iid sid token)
  then show ?thesis
    by (auto simp: public_book_slot_def split: option.splits)
next
  case (SendInvite u now ext iid request)
  then show ?thesis
    by (auto simp: send_interview_invite_def Let_def split: option.splits)
next
  case (MarkCompleted u now iid)
  then show ?thesis
    by (auto simp: mark_interview_completed_def split: option.splits)
next
  case (MarkNoShow u now iid)
  with assms [of u now iid] show ?thesis by blast
next
  case (Cancel u now iid)
  then show ?thesis
    by (auto simp: cancel_interview_def split: option.splits)
next
  case (MoveToNextRound u now iid r)
  then show ?thesis by (simp add: move_keys)
next
  case (Reject u now iid r)
  then show ?thesis by (simp add: reject_keys)
next
  case (InitiateHiring u now iid r)
  then show ?thesis by (simp add: hiring_keys)
qed

lemma step_ids:
  "map cand_candidate_id (candidates (step tok c d)) = map cand_candidate_id (candidates d)"
proof (cases "\<exists>u now iid. c = MarkNoShow u now iid")
  case True
  then obtain u now iid where c: "c = MarkNoShow u now iid" by blast
  from no_show_step [of tok u now iid d] show ?thesis
    unfolding c by (auto simp: set_candidate_def map_update_one no_show_inc_def)
next
  case False
  then have "map ledger_key (candidates (step tok c d)) = map ledger_key (candidates d)"
    by (intro other_keys) blast
  then have "map fst (map ledger_key (candidates (step tok c d)))
      = map fst (map ledger_key (candidates d))"
    by simp
  then show ?thesis by (simp add: ledger_key_def comp_def)
qed

lemma doc_fresh:
  "no_show_count (interview_doc u now g r j) = 0
   \<and> candidate_id (interview_doc u now g r j) = ic_candidate_id r"
  by (simp add: interview_doc_def)

lemma step_counts:
  assumes "list_all (\<lambda>i. 0 \<le> no_show_count i
      \<and> candidate_id i \<in> set (map cand_candidate_id (candidates d))) (interviews d)"
  shows "list_all (\<lambda>i. 0 \<le> no_show_count i
      \<and> candidate_id i \<in> set (map cand_candidate_id (candidates (step tok c d))))
      (interviews (step tok c d))"
proof -
  let ?S = "set (map cand_candidate_id (candidates d))"
  have "list_all (\<lambda>i. 0 \<le> no_show_count i \<and> candidate_id i \<in> ?S) (interviews (step tok c d))"
    using step_shape [of tok c d]
  proof (elim disjE exE conjE)
    assume "interviews (step tok c d) = interviews d"
    with assms show ?thesis by simp
  next
    fix u now g r j
    assume "interviews (step tok c d) = interviews d @ [interview_doc u now g r j]"
      and "ic_candidate_id r \<in> ?S"
    with assms show ?thesis by (simp add: doc_fresh)
  next
    fix i
    assume "replaced (interviews d) (interviews (step tok c d)) i (written c i)"
    then obtain ys zs where s: "interviews d = ys @ i # zs"
      "interviews (step tok c d) = ys @ written c i # zs"
      by (auto simp: replaced_def)
    have "no_show_count i \<le> no_show_count (written c i)"
      by (simp add: written_no_show split: command.splits)
    with assms s show ?thesis by (simp add: written_candidate)
  qed
  then show ?thesis by (simp only: step_ids)
qed

lemma step_sum:
  assumes "\<And>u now iid. c \<noteq> MarkNoShow u now iid"
  shows "no_show_sum cid (step tok c d) = no_show_sum cid d"
  using step_shape [of tok c d]
proof (elim disjE exE conjE)
  assume "interviews (step tok c d) = interviews d"
  then show ?thesis by (simp add: no_show_sum_def)
next
  fix u now g r j
  assume "interviews (step tok c d) = interviews d @ [interview_doc u now g r j]"
  then show ?thesis by (simp add: no_show_sum_def doc_fresh)
next
  fix i
  assume r: "replaced (interviews d) (interviews (step tok c d)) i (written c i)"
  have "no_show_count (written c i) = no_show_count i"
    using assms by (simp add: written_no_show split: command.splits)
  with sum_replaced [OF r written_candidate, of cid] show ?thesis
    by (simp add: no_show_sum_def)
qed

lemma ledger_by_keys:
  "list_all (\<lambda>c. no_show_total c = f (cand_candidate_id c)) cs
   = list_all (\<lambda>p. (case snd p of None \<Rightarrow> 0 | Some n \<Rightarrow> n) = f (fst p)) (map ledger_key cs)"
  by (simp add: list.pred_map comp_def ledger_key_def no_show_total_def)

lemma total_inc: "no_show_total (no_show_inc c) = no_show_total c + 1"
  by (simp add: no_show_total_def no_show_inc_def split: option.splits)

lemma ledger_other:
  assumes "ledger_ok d" and "\<And>u now iid. c \<noteq> MarkNoShow u now iid"
  shows "ledger_ok (step tok c d)"
proof -
  from assms(1) have a: "distinct (map cand_candidate_id (candidates d))"
    and b: "list_all (\<lambda>c. no_show_total c = no_show_sum (cand_candidate_id c) d) (candidates d)"
    and e: "list_all (\<lambda>i. 0 \<le> no_show_count i
      \<and> candidate_id i \<in> set (map cand_candidate_id (candidates d))) (interviews d)"
    by (simp_all add: ledger_ok_def)
  have "list_all (\<lambda>x. no_show_total x = no_show_sum (cand_candidate_id x) d)
      (candidates (step tok c d))"
    using b
    unfolding ledger_by_keys [of "\<lambda>k. no_show_sum k d"] other_keys [OF assms(2)] .
  then have "list_all (\<lambda>x. no_show_total x = no_show_sum (cand_candidate_id x) (step tok c d))
      (candidates (step tok c d))"
    by (simp add: step_sum [OF assms(2)])
  with a step_counts [OF e, of tok c] show ?thesis
    by (simp add: ledger_ok_def step_ids)
qed

lemma ledger_no_show:
  assumes "ledger_ok d"
  shows "ledger_ok (step tok (MarkNoShow u now iid) d)"
  using no_show_step [of tok u now iid d]
proof (elim disjE exE conjE)
  assume "step tok (MarkNoShow u now iid) d = d"
  with assms show ?thesis by simp
next
  fix i :: interview
  let ?c = "MarkNoShow u now iid"
  let ?w = "no_show_write now (no_show_count i + 1)"
  assume f: "find_one (has_id iid) (interviews d) = Some i"
    and st: "step tok ?c d = set_candidate (candidate_id i) no_show_inc (set_interview iid ?w d)"
  from assms have a: "distinct (map cand_candidate_id (candidates d))"
    and b: "list_all (\<lambda>c. no_show_total c = no_show_sum (cand_candidate_id c) d) (candidates d)"
    and e: "list_all (\<lambda>i. 0 \<le> no_show_count i
      \<and> candidate_id i \<in> set (map cand_candidate_id (candidates d))) (interviews d)"
    by (simp_all add: ledger_ok_def)
  have r: "replaced (interviews d) (interviews (step tok ?c d)) i (?w i)"
    unfolding st using replaced_set_interview [OF f, of ?w] by simp
  have w: "candidate_id (?w i) = candidate_id i" "no_show_count (?w i) = no_show_count i + 1"
    by (simp_all add: no_show_write_def)
  have s: "no_show_sum k (step tok ?c d)
      = no_show_sum k d + (if candidate_id i = k then 1 else 0)" for k
    using sum_replaced [OF r w(1), of k] by (simp add: no_show_sum_def w(2))
  have cs: "candidates (step tok ?c d)
      = map (\<lambda>x. if cand_candidate_id x = candidate_id i then no_show_inc x else x) (candidates d)"
    unfolding st by (simp add: set_candidate_def update_one_distinct [OF a])
  have p: "no_show_total (if cand_candidate_id x = candidate_id i then no_show_inc x else x)
      = no_show_sum (cand_candidate_id (if cand_candidate_id x = candidate_id i
          then no_show_inc x else x)) (step tok ?c d)"
    if "x \<in> set (candidates d)" for x
  proof -
    from b that have "no_show_total x = no_show_sum (cand_candidate_id x) d"
      by (simp add: list_all_iff)
    moreover have "cand_candidate_id (no_show_inc x) = cand_candidate_id x"
      by (simp add: no_show_inc_def)
    ultimately show ?thesis by (simp add: s total_inc del: step.simps)
  qed
  have "list_all (\<lambda>x. no_show_total x = no_show_sum (cand_candidate_id x) (step tok ?c d))
      (candidates (step tok ?c d))"
    unfolding cs list_all_iff
  proof
    fix y
    assume "y \<in> set (map (\<lambda>x. if cand_candidate_id x = candidate_id i then no_show_inc x else x)
        (candidates d))"
    then obtain x where "x \<in> set (candidates d)"
      and "y = (if cand_candidate_id x = candidate_id i then no_show_inc x else x)"
      by auto
    with p [of x]
    show "no_show_total y = no_show_sum (cand_candidate_id y) (step tok ?c d)"
      by (simp only:)
  qed
  with a step_counts [OF e, of tok ?c] show ?thesis
    by (simp add: ledger_ok_def step_ids del: step.simps)
qed

lemma step_ledger: "ledger_ok d \<Longrightarrow> ledger_ok (step tok c d)"
proof (cases "\<exists>u now iid. c = MarkNoShow u now iid")
  case True
  assume "ledger_ok d"
  with True show ?thesis by (auto simp only: ledger_no_show)
next
  case False
  assume "ledger_ok d"
  then show ?thesis by (rule ledger_other) (use False in blast)
qed

lemma run_ledger: "ledger_ok d \<Longrightarrow> ledger_ok (run tok cs d)"
  by (induction cs arbitrary: d) (simp_all add: run_def step_ledger)

lemma initial_ledger: "initial d \<Longrightarrow> ledger_ok d"
  by (auto simp: initial_def ledger_ok_def no_show_sum_def no_show_total_def list_all_iff)

lemma find_cand_exists:
  "k \<in> set (map cand_candidate_id cs) \<Longrightarrow> \<exists>c. find_one (is_cand k) cs = Some c"
  by (induction cs) (auto simp: is_cand_def)

lemma no_show_effect:
  assumes "ledger_ok d" and f: "find_one (has_id iid) (interviews d) = Some i"
    and "\<not> access_denied u i"
  shows "snd (mark_interview_no_show u now iid d) = Inr (no_show_count i + 1)
     \<and> interview_no_shows iid (fst (mark_interview_no_show u now iid d))
         = Some (no_show_count i + 1)
     \<and> candidate_no_shows (candidate_id i) d \<noteq> None
     \<and> candidate_no_shows (candidate_id i) (fst (mark_interview_no_show u now iid d))
         = map_option (\<lambda>k. k + 1) (candidate_no_shows (candidate_id i) d)"
proof -
  let ?w = "no_show_write now (no_show_count i + 1)"
  let ?k = "candidate_id i"
  have m: "mark_interview_no_show u now iid d
      = (set_candidate ?k no_show_inc (set_interview iid ?w d), Inr (no_show_count i + 1))"
    using assms by (simp add: mark_interview_no_show_def Let_def)
  have "has_id iid (?w i)"
    using find_has_id [OF f] by (simp add: has_id_def no_show_write_def)
  then have "find_one (has_id iid) (update_one (has_id iid) ?w (interviews d)) = Some (?w i)"
    by (rule find_update_one_same [OF f])
  then have iv: "interview_no_shows iid (set_candidate ?k no_show_inc (set_interview iid ?w d))
      = Some (no_show_count i + 1)"
    by (simp add: interview_no_shows_def set_interview_def no_show_write_def)
  from find_one_mem [OF f] assms(1)
  have "?k \<in> set (map cand_candidate_id (candidates d))"
    by (auto simp: ledger_ok_def list_all_iff)
  then obtain c where c: "find_one (is_cand ?k) (candidates d) = Some c"
    using find_cand_exists by blast
  have "is_cand ?k (no_show_inc c)"
    using find_is_cand [OF c] by (simp add: is_cand_def no_show_inc_def)
  then have "find_one (is_cand ?k) (update_one (is_cand ?k) no_show_inc (candidates d))
      = Some (no_show_inc c)"
    by (rule find_update_one_same [OF c])
  then have cn: "candidate_no_shows ?k (set_candidate ?k no_show_inc (set_interview iid ?w d))
      = Some (no_show_total c + 1)"
    by (simp add: candidate_no_shows_def set_candidate_def total_inc)
  from c have c0: "candidate_no_shows ?k d = Some (no_show_total c)"
    by (simp add: candidate_no_shows_def)
  show ?thesis
    unfolding m by (simp add: iv cn c0)
qed

text \<open>
  Claim C4, amended. Start from a database without interviews whose candidates have
  distinct ids and no count yet, and run any sequence of the interview commands. In the
  state reached, every interview's \<^verbatim>\<open>no_show_count\<close> is non-negative (it is the number
  of times the interview was marked, and is not bounded by 1), and every candidate's
  aggregate count, read as 0 when the field is absent, is the sum of the counts of the
  candidate's interviews. A call of \<^verbatim>\<open>mark_interview_no_show\<close> on an interview the caller
  may access succeeds, returns the interview's count plus one, stores it, and adds one to
  the aggregate count of the interview's candidate, who exists.
\<close>

theorem no_show_ledger:
  assumes "initial d0" and "d = run tok cs d0"
  shows "(\<forall>i \<in> set (interviews d). 0 \<le> no_show_count i)
     \<and> (\<forall>c \<in> set (candidates d). no_show_total c = no_show_sum (cand_candidate_id c) d)
     \<and> (\<forall>u now iid i. find_one (has_id iid) (interviews d) = Some i \<and> \<not> access_denied u i \<longrightarrow>
          snd (mark_interview_no_show u now iid d) = Inr (no_show_count i + 1)
          \<and> interview_no_shows iid (fst (mark_interview_no_show u now iid d))
              = Some (no_show_count i + 1)
          \<and> candidate_no_shows (candidate_id i) d \<noteq> None
          \<and> candidate_no_shows (candidate_id i) (fst (mark_interview_no_show u now iid d))
              = map_option (\<lambda>k. k + 1) (candidate_no_shows (candidate_id i) d))"
proof -
  have l: "ledger_ok d"
    unfolding assms(2) by (rule run_ledger [OF initial_ledger [OF assms(1)]])
  have "\<forall>i \<in> set (interviews d). 0 \<le> no_show_count i"
    using l by (simp add: ledger_ok_def list_all_iff)
  moreover have "\<forall>c \<in> set (candidates d). no_show_total c = no_show_sum (cand_candidate_id c) d"
    using l by (simp add: ledger_ok_def list_all_iff)
  moreover have "snd (mark_interview_no_show u now iid d) = Inr (no_show_count i + 1)
          \<and> interview_no_shows iid (fst (mark_interview_no_show u now iid d))
              = Some (no_show_count i + 1)
          \<and> candidate_no_shows (candidate_id i) d \<noteq> None
          \<and> candidate_no_shows (candidate_id i) (fst (mark_interview_no_show u now iid d))
              = map_option (\<lambda>k. k + 1) (candidate_no_shows (candidate_id i) d)"
    if "find_one (has_id iid) (interviews d) = Some i \<and> \<not> access_denied u i" for u now iid i
    using no_show_effect [OF l, of iid i u now] that by blast
  ultimately show ?thesis by blast
qed

theorem no_show_ledger_witness:
  "initial db0 \<and> db_no_show = run (\<lambda>x. x) no_show_run db0
   \<and> find_one (has_id ''int_1'') (interviews db_no_show) = Some (hd (interviews db_no_show))
   \<and> \<not> access_denied admin (hd (interviews db_no_show))
   \<and> no_show_count (hd (interviews db_no_show)) = 1
   \<and> candidate_id (hd (interviews db_no_show)) = ''cand_1''
   \<and> candidate_no_shows ''cand_1'' db_no_show = Some 1
   \<and> snd (mark_interview_no_show admin ''t2'' ''int_1'' db_no_show)
       = Inr (no_show_count (hd (interviews db_no_show)) + 1)
   \<and> interview_no_shows ''int_1'' (fst (mark_interview_no_show admin ''t2'' ''int_1'' db_no_show))
       = Some (no_show_count (hd (interviews db_no_show)) + 1)
   \<and> candidate_no_shows (candidate_id (hd (interviews db_no_show))) db_no_show \<noteq> None
   \<and> candidate_no_shows (candidate_id (hd (interviews db_no_show)))
         (fst (mark_interview_no_show admin ''t2'' ''int_1'' db_no_show))
       = map_option (\<lambda>k. k + 1)
           (candidate_no_shows (candidate_id (hd (interviews db_no_show))) db_no_show)"
proof -
  have a: "initial db0" by (simp add: initial_def db0_def cand_1_def)
  have b: "db_no_show = run (\<lambda>x. x) no_show_run db0" by (rule db_no_show_def)
  have f: "find_one (has_id ''int_1'') (interviews db_no_show) = Some (hd (interviews db_no_show))"
    by (simp add: db_no_show_def no_show_run_def run_def sample_defs create_defs handler_defs
        no_show_defs)
  have g: "\<not> access_denied admin (hd (interviews db_no_show))"
    by (simp add: access_denied_def admin_def)
  have n: "no_show_count (hd (interviews db_no_show)) = 1"
    by (simp add: db_no_show_def no_show_run_def run_def sample_defs create_defs handler_defs
        no_show_defs)
  have k: "candidate_id (hd (interviews db_no_show)) = ''cand_1''"
    by (simp add: db_no_show_def no_show_run_def run_def sample_defs create_defs handler_defs
        no_show_defs)
  have t: "candidate_no_shows ''cand_1'' db_no_show = Some 1"
    by (simp add: db_no_show_def no_show_run_def run_def sample_defs create_defs handler_defs
        no_show_defs candidate_no_shows_def no_show_total_def)
  note e = no_show_ledger [OF a b, THEN conjunct2, THEN conjunct2, rule_format,
      OF conjI [OF f g], of "''t2''"]
  show ?thesis
    by (rule conjI [OF a conjI [OF b conjI [OF f conjI [OF g conjI [OF n conjI [OF k
          conjI [OF t e]]]]]]])
qed

end
